theory Spec2Isabelle
  imports Complex_Main "HOL-Library.Word" "HOL-Library.Sublist"
begin

section \<open>JavaScript values\<close>

text \<open>
  The server (\<^verbatim>\<open>src/server.js\<close>) is an Express application whose handlers work on parsed
  JSON. A JavaScript string is a sequence of UTF-16 code units, and \<^verbatim>\<open>s.length\<close> counts
  those units, so a string is a list of 16-bit words. \<open>ascii\<close> embeds a literal that has only
  ASCII characters.
\<close>

type_synonym jstring = "16 word list"

definition ascii :: "string \<Rightarrow> jstring" where
  "ascii s = map of_char s"

definition nl :: jstring where
  "nl = [0x0A]"

text \<open>
  A value is what \<^verbatim>\<open>JSON.parse\<close> builds, plus \<^verbatim>\<open>undefined\<close>, which reading a missing
  property gives. A number is carried by the decimal text that \<^verbatim>\<open>Number.prototype.toString\<close>
  prints for it (\<^verbatim>\<open>42\<close>, \<^verbatim>\<open>-1.5\<close>, \<^verbatim>\<open>Infinity\<close>; both zeros print \<^verbatim>\<open>0\<close>): the handlers only
  test numbers for truthiness and print them. An object is the list of its own properties
  in enumeration order.
\<close>

datatype jsval =
    Undefined
  | Null
  | Bool bool
  | Num jstring
  | Str jstring
  | Arr "jsval list"
  | Obj "(jstring \<times> jsval) list"

text \<open>What can be thrown: a \<^verbatim>\<open>TypeError\<close> of the runtime, which has no \<^verbatim>\<open>status\<close>, or an
  error of the provider's SDK, whose \<^verbatim>\<open>status\<close> is the HTTP status or \<^verbatim>\<open>undefined\<close>.\<close>

datatype js_error = TypeError | APIError "nat option"

fun status :: "js_error \<Rightarrow> nat option" where
  "status TypeError = None"
| "status (APIError st) = st"

text \<open>\<^verbatim>\<open>res.status(n).json(v)\<close>; \<^verbatim>\<open>res.json(v)\<close> is status 200.\<close>

datatype response = Response nat jsval

fun status_code :: "response \<Rightarrow> nat" where
  "status_code (Response n v) = n"

text \<open>The outcome of a piece of handler code: it throws, it returns a response early, or it
  goes on with a value.\<close>

datatype 'a flow = Throw js_error | Return response | Next 'a

fun bind_flow :: "'a flow \<Rightarrow> ('a \<Rightarrow> 'b flow) \<Rightarrow> 'b flow" where
  "bind_flow (Throw e) f = Throw e"
| "bind_flow (Return r) f = Return r"
| "bind_flow (Next x) f = f x"

text \<open>Truthiness (\<^verbatim>\<open>!v\<close>, \<^verbatim>\<open>if (v)\<close>).\<close>

fun truthy :: "jsval \<Rightarrow> bool" where
  "truthy Undefined = False"
| "truthy Null = False"
| "truthy (Bool b) = b"
| "truthy (Num n) = (n \<noteq> ascii ''0'' \<and> n \<noteq> ascii ''NaN'')"
| "truthy (Str s) = (s \<noteq> [])"
| "truthy (Arr xs) = True"
| "truthy (Obj ps) = True"

text \<open>
  Reading a property \<^verbatim>\<open>v.k\<close>, for the names the handlers read (\<^verbatim>\<open>messages\<close>, \<^verbatim>\<open>model\<close>,
  \<^verbatim>\<open>role\<close>, \<^verbatim>\<open>content\<close>, \<^verbatim>\<open>usage\<close>, \<^verbatim>\<open>text\<close>): none of them is on a built-in prototype, so
  only an object's own property gives a value; on \<^verbatim>\<open>null\<close> and \<^verbatim>\<open>undefined\<close> the read throws.
\<close>

fun get_prop :: "jsval \<Rightarrow> jstring \<Rightarrow> jsval flow" where
  "get_prop Undefined k = Throw TypeError"
| "get_prop Null k = Throw TypeError"
| "get_prop (Obj ps) k = Next (case map_of ps k of None \<Rightarrow> Undefined | Some v \<Rightarrow> v)"
| "get_prop v k = Next Undefined"

text \<open>Reading \<^verbatim>\<open>v[0]\<close>.\<close>

fun index0 :: "jsval \<Rightarrow> jsval flow" where
  "index0 Undefined = Throw TypeError"
| "index0 Null = Throw TypeError"
| "index0 (Arr []) = Next Undefined"
| "index0 (Arr (x # xs)) = Next x"
| "index0 (Str []) = Next Undefined"
| "index0 (Str (c # cs)) = Next (Str [c])"
| "index0 (Obj ps) = Next (case map_of ps (ascii ''0'') of None \<Rightarrow> Undefined | Some v \<Rightarrow> v)"
| "index0 v = Next Undefined"

text \<open>\<^verbatim>\<open>String.prototype.includes\<close>: \<open>includes_str s k\<close> is \<^verbatim>\<open>s.includes(k)\<close>.\<close>

fun includes_str :: "jstring \<Rightarrow> jstring \<Rightarrow> bool" where
  "includes_str [] k = (k = [])"
| "includes_str (c # cs) k = (prefix k (c # cs) \<or> includes_str cs k)"

text \<open>
  \<^verbatim>\<open>String.prototype.toLowerCase\<close> on the Basic Latin and the Cyrillic capital letters
  (U+0041..U+005A, U+0410..U+042F, U+0400..U+040F), the alphabets of the keywords that the
  fallback generator looks for; other code units are kept. The lower-cased text is only
  searched for those keywords.
\<close>

definition lower_unit :: "16 word \<Rightarrow> 16 word" where
  "lower_unit c =
     (if 0x41 \<le> c \<and> c \<le> 0x5A then c + 0x20
      else if 0x410 \<le> c \<and> c \<le> 0x42F then c + 0x20
      else if 0x400 \<le> c \<and> c \<le> 0x40F then c + 0x50
      else c)"

definition toLowerCase :: "jstring \<Rightarrow> jstring" where
  "toLowerCase s = map lower_unit s"

fun join :: "jstring \<Rightarrow> jstring list \<Rightarrow> jstring" where
  "join sep [] = []"
| "join sep [x] = x"
| "join sep (x # y # ys) = x @ sep @ join sep (y # ys)"

text \<open>String conversion, as a template literal \<^verbatim>\<open>`${v}`\<close> does it.\<close>

fun ToString :: "jsval \<Rightarrow> jstring"
and ToString_elements :: "jsval list \<Rightarrow> jstring list" where
  "ToString Undefined = ascii ''undefined''"
| "ToString Null = ascii ''null''"
| "ToString (Bool b) = (if b then ascii ''true'' else ascii ''false'')"
| "ToString (Num n) = n"
| "ToString (Str s) = s"
| "ToString (Arr xs) = join (ascii '','') (ToString_elements xs)"
| "ToString (Obj ps) = ascii ''[object Object]''"
| "ToString_elements [] = []"
| "ToString_elements (x # xs) =
     (if x = Undefined \<or> x = Null then [] else ToString x) # ToString_elements xs"

subsection \<open>\<^verbatim>\<open>JSON.stringify\<close>\<close>

definition hex_digit :: "16 word \<Rightarrow> 16 word" where
  "hex_digit d = (if d < 10 then 0x30 + d else 0x57 + d)"

definition unicode_escape :: "16 word \<Rightarrow> jstring" where
  "unicode_escape c =
     [0x5C, 0x75, hex_digit (drop_bit 12 c), hex_digit (take_bit 4 (drop_bit 8 c)),
      hex_digit (take_bit 4 (drop_bit 4 c)), hex_digit (take_bit 4 c)]"

text \<open>The escapes of \<^verbatim>\<open>QuoteJSONString\<close>: the short escapes, \<^verbatim>\<open>\u00xx\<close> for the other control
  characters, \<^verbatim>\<open>\udxxx\<close> for a surrogate that is not part of a pair.\<close>

fun quote_units :: "jstring \<Rightarrow> jstring" where
  "quote_units [] = []"
| "quote_units (c # cs) =
     (if c = 0x08 then [0x5C, 0x62] @ quote_units cs
      else if c = 0x09 then [0x5C, 0x74] @ quote_units cs
      else if c = 0x0A then [0x5C, 0x6E] @ quote_units cs
      else if c = 0x0C then [0x5C, 0x66] @ quote_units cs
      else if c = 0x0D then [0x5C, 0x72] @ quote_units cs
      else if c = 0x22 then [0x5C, 0x22] @ quote_units cs
      else if c = 0x5C then [0x5C, 0x5C] @ quote_units cs
      else if c < 0x20 then unicode_escape c @ quote_units cs
      else if 0xD800 \<le> c \<and> c \<le> 0xDBFF then
        (case cs of
           [] \<Rightarrow> unicode_escape c
         | d # ds \<Rightarrow>
             if 0xDC00 \<le> d \<and> d \<le> 0xDFFF then c # d # quote_units ds
             else unicode_escape c @ quote_units cs)
      else if 0xDC00 \<le> c \<and> c \<le> 0xDFFF then unicode_escape c @ quote_units cs
      else c # quote_units cs)"

definition JSON_quote :: "jstring \<Rightarrow> jstring" where
  "JSON_quote s = [0x22] @ quote_units s @ [0x22]"

text \<open>
  \<^verbatim>\<open>JSON.stringify(v)\<close> for an array or an object \<open>v\<close> (every call of the handlers): a
  property whose value is \<^verbatim>\<open>undefined\<close> is left out, an \<^verbatim>\<open>undefined\<close> array element and a
  number that is not finite print \<^verbatim>\<open>null\<close>.
\<close>

fun JSON_stringify :: "jsval \<Rightarrow> jstring"
and stringify_elements :: "jsval list \<Rightarrow> jstring list"
and stringify_properties :: "(jstring \<times> jsval) list \<Rightarrow> jstring list" where
  "JSON_stringify Undefined = ascii ''null''"
| "JSON_stringify Null = ascii ''null''"
| "JSON_stringify (Bool b) = (if b then ascii ''true'' else ascii ''false'')"
| "JSON_stringify (Num n) =
     (if n = ascii ''Infinity'' \<or> n = ascii ''-Infinity'' \<or> n = ascii ''NaN''
      then ascii ''null'' else n)"
| "JSON_stringify (Str s) = JSON_quote s"
| "JSON_stringify (Arr xs) = ascii ''['' @ join (ascii '','') (stringify_elements xs) @ ascii '']''"
| "JSON_stringify (Obj ps) =
     ascii ''{'' @ join (ascii '','') (stringify_properties ps) @ ascii ''}''"
| "stringify_elements [] = []"
| "stringify_elements (x # xs) = JSON_stringify x # stringify_elements xs"
| "stringify_properties [] = []"
| "stringify_properties ((k, v) # ps) =
     (if v = Undefined then stringify_properties ps
      else (JSON_quote k @ ascii '':'' @ JSON_stringify v) # stringify_properties ps)"


section \<open>The process state\<close>

text \<open>
  The cache is \<^verbatim>\<open>new NodeCache({ stdTTL: 3600 })\<close>: a key maps to a value and the time, in
  milliseconds, at which the entry expires (0: never); \<^verbatim>\<open>get\<close> counts a hit or a miss and
  deletes an entry it finds expired; \<^verbatim>\<open>set\<close> stores with the expiry \<^verbatim>\<open>Date.now() + 3600 * 1000\<close>.
  \<open>calls\<close> is the log of the requests sent to the provider
  (\<^verbatim>\<open>anthropic.messages.create\<close>), oldest first.
\<close>

record state =
  cache :: "jstring \<rightharpoonup> (jsval \<times> nat)"
  hits :: nat
  misses :: nat
  calls :: "jsval list"

definition init_state :: state where
  "init_state = \<lparr>cache = Map.empty, hits = 0, misses = 0, calls = []\<rparr>"

definition stdTTL :: nat where
  "stdTTL = 3600"

definition cache_get :: "nat \<Rightarrow> jstring \<Rightarrow> state \<Rightarrow> jsval \<times> state" where
  "cache_get now key s =
     (case cache s key of
        None \<Rightarrow> (Undefined, s\<lparr>misses := misses s + 1\<rparr>)
      | Some (v, t) \<Rightarrow>
          if t \<noteq> 0 \<and> t < now
          then (Undefined, s\<lparr>cache := (cache s)(key := None), misses := misses s + 1\<rparr>)
          else (v, s\<lparr>hits := hits s + 1\<rparr>))"

definition cache_set :: "nat \<Rightarrow> jstring \<Rightarrow> jsval \<Rightarrow> state \<Rightarrow> state" where
  "cache_set now key v s = s\<lparr>cache := (cache s)(key \<mapsto> (v, now + stdTTL * 1000))\<rparr>"

text \<open>
  The world outside the process: \<^verbatim>\<open>process.env.ANTHROPIC_API_KEY\<close>, and the provider. A call
  of the provider resolves to a value or rejects with an error; what it does may depend on
  the calls made before it.
\<close>

datatype outcome = Resolved jsval | Rejected js_error

record env =
  ANTHROPIC_API_KEY :: "jstring option"
  provider :: "jsval list \<Rightarrow> jsval \<Rightarrow> outcome"

definition api_key_configured :: "env \<Rightarrow> bool" where
  "api_key_configured e = (case ANTHROPIC_API_KEY e of None \<Rightarrow> False | Some k \<Rightarrow> k \<noteq> [])"

text \<open>\<^verbatim>\<open>await anthropic.messages.create(request)\<close>.\<close>

definition create :: "env \<Rightarrow> jsval \<Rightarrow> state \<Rightarrow> outcome \<times> state" where
  "create e request s = (provider e (calls s) request, s\<lparr>calls := calls s @ [request]\<rparr>)"

section \<open>POST /api/claude\<close>

definition error_body :: "string \<Rightarrow> jsval" where
  "error_body msg = Obj [(ascii ''error'', Str (ascii msg))]"

definition default_model :: jstring where
  "default_model = ascii ''claude-3-5-sonnet-20241022''"

definition allowedModels :: "jsval list" where
  "allowedModels =
     [Str (ascii ''claude-3-5-sonnet-20241022''),
      Str (ascii ''claude-3-haiku-20240307''),
      Str (ascii ''claude-3-opus-20240229'')]"

text \<open>The body of the loop over the messages (lines 88 to 102).\<close>

definition check_message :: "jsval \<Rightarrow> unit flow" where
  "check_message message =
     bind_flow (get_prop message (ascii ''role'')) (\<lambda>role.
       if \<not> truthy role
       then Return (Response 400 (error_body ''Invalid message format: role and content required''))
       else bind_flow (get_prop message (ascii ''content'')) (\<lambda>content.
         if \<not> truthy content
         then Return (Response 400 (error_body ''Invalid message format: role and content required''))
         else if role \<notin> set [Str (ascii ''user''), Str (ascii ''assistant''), Str (ascii ''system'')]
         then Return (Response 400 (error_body ''Invalid message role''))
         else (case content of
                 Str c \<Rightarrow>
                   if length c > 10000
                   then Return (Response 400 (error_body ''Message content too long''))
                   else Next ()
               | _ \<Rightarrow> Return (Response 400 (error_body ''Message content must be a string'')))))"

text \<open>\<^verbatim>\<open>for (const message of messages)\<close> (line 87).\<close>

fun check_messages :: "jsval list \<Rightarrow> unit flow" where
  "check_messages [] = Next ()"
| "check_messages (message # rest) =
     (case check_message message of
        Throw e \<Rightarrow> Throw e
      | Return r \<Rightarrow> Return r
      | Next u \<Rightarrow> check_messages rest)"

text \<open>
  Lines 70 to 114: the destructuring of the body with the default of \<^verbatim>\<open>model\<close>, and the
  checks of the messages and of the model. The result is the list of messages and the model.
  \<open>isArray\<close> is \<^verbatim>\<open>Array.isArray\<close>, \<open>elements\<close> the elements of an array.
\<close>

definition isArray :: "jsval \<Rightarrow> bool" where
  "isArray v = (case v of Arr xs \<Rightarrow> True | _ \<Rightarrow> False)"

definition elements :: "jsval \<Rightarrow> jsval list" where
  "elements v = (case v of Arr xs \<Rightarrow> xs | _ \<Rightarrow> [])"

definition validate_shape :: "jsval \<Rightarrow> (jsval list \<times> jsval) flow" where
  "validate_shape body =
     bind_flow (get_prop body (ascii ''messages'')) (\<lambda>msgs.
     bind_flow (get_prop body (ascii ''model'')) (\<lambda>m.
       let mdl = (if m = Undefined then Str default_model else m) in
       if \<not> truthy msgs \<or> \<not> isArray msgs
       then Return (Response 400 (error_body ''Messages array is required''))
       else if length (elements msgs) = 0
       then Return (Response 400 (error_body ''Messages array cannot be empty''))
       else if length (elements msgs) > 50
       then Return (Response 400 (error_body ''Too many messages in conversation''))
       else bind_flow (check_messages (elements msgs)) (\<lambda>u.
         if mdl \<notin> set allowedModels
         then Return (Response 400 (error_body ''Invalid model specified''))
         else Next (elements msgs, mdl))))"

text \<open>\<^verbatim>\<open>messages.find(m => m.role === 'user')\<close> (line 117); \<open>Undefined\<close> when there is none.\<close>

fun find_user :: "jsval list \<Rightarrow> jsval flow" where
  "find_user [] = Next Undefined"
| "find_user (m # rest) =
     (case get_prop m (ascii ''role'') of
        Throw e \<Rightarrow> Throw e
      | Return r \<Rightarrow> Return r
      | Next role \<Rightarrow> if role = Str (ascii ''user'') then Next m else find_user rest)"

text \<open>Lines 70 to 120: the result is the messages, the model and the user message.\<close>

definition validate :: "jsval \<Rightarrow> (jsval list \<times> jsval \<times> jsval) flow" where
  "validate body =
     bind_flow (validate_shape body) (\<lambda>(ms, mdl).
     bind_flow (find_user ms) (\<lambda>userMessage.
       if \<not> truthy userMessage
       then Return (Response 400 (error_body ''No user message found''))
       else Next (ms, mdl, userMessage)))"

text \<open>Line 123: the cache key is made from the messages alone.\<close>

definition cacheKey :: "jsval list \<Rightarrow> jstring" where
  "cacheKey ms = ascii ''enhanced_claude_'' @ JSON_stringify (Arr ms)"

subsection \<open>The fallback generator\<close>

text \<open>\<^verbatim>\<open>po_zaprosu\<close> is the common head of the four response templates: Po zaprosu ''\<close>

definition po_zaprosu :: jstring where
  "po_zaprosu =
     [0x41F, 0x43E, 0x20, 0x437, 0x430, 0x43F, 0x440, 0x43E, 0x441, 0x443, 0x20, 0x22]"

text \<open>\<^verbatim>\<open>kw_restoran\<close> is the text: restoran\<close>

definition kw_restoran :: jstring where
  "kw_restoran =
     [0x440, 0x435, 0x441, 0x442, 0x43E, 0x440, 0x430, 0x43D]"

text \<open>\<^verbatim>\<open>kw_kafe\<close> is the text: kafe\<close>

definition kw_kafe :: jstring where
  "kw_kafe =
     [0x43A, 0x430, 0x444, 0x435]"

text \<open>\<^verbatim>\<open>kw_pitanie\<close> is the text: pitanie\<close>

definition kw_pitanie :: jstring where
  "kw_pitanie =
     [0x43F, 0x438, 0x442, 0x430, 0x43D, 0x438, 0x435]"

text \<open>\<^verbatim>\<open>food_response_tail\<close> is the text: '' naydeny kody, svyazannye s obshchestvennym pitaniem. Restorany i kafe klassifitsiruyutsya v sektsii I ''Predostavlenie uslug po prozhivaniyu i pitaniyu''.\<close>

definition food_response_tail :: jstring where
  "food_response_tail =
     [0x22, 0x20, 0x43D, 0x430, 0x439, 0x434, 0x435, 0x43D, 0x44B, 0x20, 0x43A, 0x43E,
      0x434, 0x44B, 0x2C, 0x20, 0x441, 0x432, 0x44F, 0x437, 0x430, 0x43D, 0x43D, 0x44B,
      0x435, 0x20, 0x441, 0x20, 0x43E, 0x431, 0x449, 0x435, 0x441, 0x442, 0x432, 0x435,
      0x43D, 0x43D, 0x44B, 0x43C, 0x20, 0x43F, 0x438, 0x442, 0x430, 0x43D, 0x438,
      0x435, 0x43C, 0x2E, 0x20, 0x420, 0x435, 0x441, 0x442, 0x43E, 0x440, 0x430, 0x43D,
      0x44B, 0x20, 0x438, 0x20, 0x43A, 0x430, 0x444, 0x435, 0x20, 0x43A, 0x43B, 0x430,
      0x441, 0x441, 0x438, 0x444, 0x438, 0x446, 0x438, 0x440, 0x443, 0x44E, 0x442,
      0x441, 0x44F, 0x20, 0x432, 0x20, 0x441, 0x435, 0x43A, 0x446, 0x438, 0x438, 0x20,
      0x49, 0x20, 0x22, 0x41F, 0x440, 0x435, 0x434, 0x43E, 0x441, 0x442, 0x430, 0x432,
      0x43B, 0x435, 0x43D, 0x438, 0x435, 0x20, 0x443, 0x441, 0x43B, 0x443, 0x433, 0x20,
      0x43F, 0x43E, 0x20, 0x43F, 0x440, 0x43E, 0x436, 0x438, 0x432, 0x430, 0x43D,
      0x438, 0x44E, 0x20, 0x438, 0x20, 0x43F, 0x438, 0x442, 0x430, 0x43D, 0x438, 0x44E,
      0x22, 0x2E]"

text \<open>\<^verbatim>\<open>food_name\<close> is the text: Deyatelnost restoranov i kafe\<close>

definition food_name :: jstring where
  "food_name =
     [0x414, 0x435, 0x44F, 0x442, 0x435, 0x43B, 0x44C, 0x43D, 0x43E, 0x441, 0x442, 0x44C,
      0x20, 0x440, 0x435, 0x441, 0x442, 0x43E, 0x440, 0x430, 0x43D, 0x43E, 0x432, 0x20,
      0x438, 0x20, 0x43A, 0x430, 0x444, 0x435]"

text \<open>\<^verbatim>\<open>podklass\<close> is the text: Podklass\<close>

definition podklass :: jstring where
  "podklass =
     [0x41F, 0x43E, 0x434, 0x43A, 0x43B, 0x430, 0x441, 0x441]"

text \<open>\<^verbatim>\<open>food_explanation\<close> is the text: Osnovnaya deyatelnost restoranov\<close>

definition food_explanation :: jstring where
  "food_explanation =
     [0x41E, 0x441, 0x43D, 0x43E, 0x432, 0x43D, 0x430, 0x44F, 0x20, 0x434, 0x435, 0x44F,
      0x442, 0x435, 0x43B, 0x44C, 0x43D, 0x43E, 0x441, 0x442, 0x44C, 0x20, 0x440,
      0x435, 0x441, 0x442, 0x43E, 0x440, 0x430, 0x43D, 0x43E, 0x432]"

text \<open>\<^verbatim>\<open>food_suggestion_1\<close> is the text: Razlichiya mezhdu restoranami i kafe\<close>

definition food_suggestion_1 :: jstring where
  "food_suggestion_1 =
     [0x420, 0x430, 0x437, 0x43B, 0x438, 0x447, 0x438, 0x44F, 0x20, 0x43C, 0x435, 0x436,
      0x434, 0x443, 0x20, 0x440, 0x435, 0x441, 0x442, 0x43E, 0x440, 0x430, 0x43D,
      0x430, 0x43C, 0x438, 0x20, 0x438, 0x20, 0x43A, 0x430, 0x444, 0x435]"

text \<open>\<^verbatim>\<open>food_suggestion_2\<close> is the text: Klassifikatsiya predpriyatiy obshchestvennogo pitaniya\<close>

definition food_suggestion_2 :: jstring where
  "food_suggestion_2 =
     [0x41A, 0x43B, 0x430, 0x441, 0x441, 0x438, 0x444, 0x438, 0x43A, 0x430, 0x446, 0x438,
      0x44F, 0x20, 0x43F, 0x440, 0x435, 0x434, 0x43F, 0x440, 0x438, 0x44F, 0x442,
      0x438, 0x439, 0x20, 0x43E, 0x431, 0x449, 0x435, 0x441, 0x442, 0x432, 0x435,
      0x43D, 0x43D, 0x43E, 0x433, 0x43E, 0x20, 0x43F, 0x438, 0x442, 0x430, 0x43D,
      0x438, 0x44F]"

text \<open>\<^verbatim>\<open>kw_magazin\<close> is the text: magazin\<close>

definition kw_magazin :: jstring where
  "kw_magazin =
     [0x43C, 0x430, 0x433, 0x430, 0x437, 0x438, 0x43D]"

text \<open>\<^verbatim>\<open>kw_torgovlya\<close> is the text: torgovlya\<close>

definition kw_torgovlya :: jstring where
  "kw_torgovlya =
     [0x442, 0x43E, 0x440, 0x433, 0x43E, 0x432, 0x43B, 0x44F]"

text \<open>\<^verbatim>\<open>kw_prodazha\<close> is the text: prodazha\<close>

definition kw_prodazha :: jstring where
  "kw_prodazha =
     [0x43F, 0x440, 0x43E, 0x434, 0x430, 0x436, 0x430]"

text \<open>\<^verbatim>\<open>retail_response_tail\<close> is the text: '' naydeny kody roznichnoy torgovli. Torgovye predpriyatiya klassifitsiruyutsya v sektsii G ''Optovaya i roznichnaya torgovlya''.\<close>

definition retail_response_tail :: jstring where
  "retail_response_tail =
     [0x22, 0x20, 0x43D, 0x430, 0x439, 0x434, 0x435, 0x43D, 0x44B, 0x20, 0x43A, 0x43E,
      0x434, 0x44B, 0x20, 0x440, 0x43E, 0x437, 0x43D, 0x438, 0x447, 0x43D, 0x43E,
      0x439, 0x20, 0x442, 0x43E, 0x440, 0x433, 0x43E, 0x432, 0x43B, 0x438, 0x2E, 0x20,
      0x422, 0x43E, 0x440, 0x433, 0x43E, 0x432, 0x44B, 0x435, 0x20, 0x43F, 0x440,
      0x435, 0x434, 0x43F, 0x440, 0x438, 0x44F, 0x442, 0x438, 0x44F, 0x20, 0x43A,
      0x43B, 0x430, 0x441, 0x441, 0x438, 0x444, 0x438, 0x446, 0x438, 0x440, 0x443,
      0x44E, 0x442, 0x441, 0x44F, 0x20, 0x432, 0x20, 0x441, 0x435, 0x43A, 0x446, 0x438,
      0x438, 0x20, 0x47, 0x20, 0x22, 0x41E, 0x43F, 0x442, 0x43E, 0x432, 0x430, 0x44F,
      0x20, 0x438, 0x20, 0x440, 0x43E, 0x437, 0x43D, 0x438, 0x447, 0x43D, 0x430, 0x44F,
      0x20, 0x442, 0x43E, 0x440, 0x433, 0x43E, 0x432, 0x43B, 0x44F, 0x22, 0x2E]"

text \<open>\<^verbatim>\<open>retail_name\<close> is the text: Roznichnaya torgovlya v nespetsializirovannykh magazinakh\<close>

definition retail_name :: jstring where
  "retail_name =
     [0x420, 0x43E, 0x437, 0x43D, 0x438, 0x447, 0x43D, 0x430, 0x44F, 0x20, 0x442, 0x43E,
      0x440, 0x433, 0x43E, 0x432, 0x43B, 0x44F, 0x20, 0x432, 0x20, 0x43D, 0x435, 0x441,
      0x43F, 0x435, 0x446, 0x438, 0x430, 0x43B, 0x438, 0x437, 0x438, 0x440, 0x43E,
      0x432, 0x430, 0x43D, 0x43D, 0x44B, 0x445, 0x20, 0x43C, 0x430, 0x433, 0x430,
      0x437, 0x438, 0x43D, 0x430, 0x445]"

text \<open>\<^verbatim>\<open>retail_explanation\<close> is the text: Osnovnaya roznichnaya torgovlya\<close>

definition retail_explanation :: jstring where
  "retail_explanation =
     [0x41E, 0x441, 0x43D, 0x43E, 0x432, 0x43D, 0x430, 0x44F, 0x20, 0x440, 0x43E, 0x437,
      0x43D, 0x438, 0x447, 0x43D, 0x430, 0x44F, 0x20, 0x442, 0x43E, 0x440, 0x433,
      0x43E, 0x432, 0x43B, 0x44F]"

text \<open>\<^verbatim>\<open>retail_suggestion_1\<close> is the text: Razlichiya mezhdu optovoy i roznichnoy torgovley\<close>

definition retail_suggestion_1 :: jstring where
  "retail_suggestion_1 =
     [0x420, 0x430, 0x437, 0x43B, 0x438, 0x447, 0x438, 0x44F, 0x20, 0x43C, 0x435, 0x436,
      0x434, 0x443, 0x20, 0x43E, 0x43F, 0x442, 0x43E, 0x432, 0x43E, 0x439, 0x20, 0x438,
      0x20, 0x440, 0x43E, 0x437, 0x43D, 0x438, 0x447, 0x43D, 0x43E, 0x439, 0x20, 0x442,
      0x43E, 0x440, 0x433, 0x43E, 0x432, 0x43B, 0x435, 0x439]"

text \<open>\<^verbatim>\<open>retail_suggestion_2\<close> is the text: Klassifikatsiya torgovykh tochek\<close>

definition retail_suggestion_2 :: jstring where
  "retail_suggestion_2 =
     [0x41A, 0x43B, 0x430, 0x441, 0x441, 0x438, 0x444, 0x438, 0x43A, 0x430, 0x446, 0x438,
      0x44F, 0x20, 0x442, 0x43E, 0x440, 0x433, 0x43E, 0x432, 0x44B, 0x445, 0x20, 0x442,
      0x43E, 0x447, 0x435, 0x43A]"

text \<open>\<^verbatim>\<open>kw_programmirovanie\<close> is the text: programmirovanie\<close>

definition kw_programmirovanie :: jstring where
  "kw_programmirovanie =
     [0x43F, 0x440, 0x43E, 0x433, 0x440, 0x430, 0x43C, 0x43C, 0x438, 0x440, 0x43E, 0x432,
      0x430, 0x43D, 0x438, 0x435]"

text \<open>\<^verbatim>\<open>kw_soft\<close> is the text: soft\<close>

definition kw_soft :: jstring where
  "kw_soft =
     [0x441, 0x43E, 0x444, 0x442]"

text \<open>\<^verbatim>\<open>it_response_tail\<close> is the text: '' naydeny kody IT-deyatelnosti. Razrabotka programmnogo obespecheniya klassifitsiruetsya v sektsii J ''Informatsiya i svyaz''.\<close>

definition it_response_tail :: jstring where
  "it_response_tail =
     [0x22, 0x20, 0x43D, 0x430, 0x439, 0x434, 0x435, 0x43D, 0x44B, 0x20, 0x43A, 0x43E,
      0x434, 0x44B, 0x20, 0x49, 0x54, 0x2D, 0x434, 0x435, 0x44F, 0x442, 0x435, 0x43B,
      0x44C, 0x43D, 0x43E, 0x441, 0x442, 0x438, 0x2E, 0x20, 0x420, 0x430, 0x437, 0x440,
      0x430, 0x431, 0x43E, 0x442, 0x43A, 0x430, 0x20, 0x43F, 0x440, 0x43E, 0x433,
      0x440, 0x430, 0x43C, 0x43C, 0x43D, 0x43E, 0x433, 0x43E, 0x20, 0x43E, 0x431,
      0x435, 0x441, 0x43F, 0x435, 0x447, 0x435, 0x43D, 0x438, 0x44F, 0x20, 0x43A,
      0x43B, 0x430, 0x441, 0x441, 0x438, 0x444, 0x438, 0x446, 0x438, 0x440, 0x443,
      0x435, 0x442, 0x441, 0x44F, 0x20, 0x432, 0x20, 0x441, 0x435, 0x43A, 0x446, 0x438,
      0x438, 0x20, 0x4A, 0x20, 0x22, 0x418, 0x43D, 0x444, 0x43E, 0x440, 0x43C, 0x430,
      0x446, 0x438, 0x44F, 0x20, 0x438, 0x20, 0x441, 0x432, 0x44F, 0x437, 0x44C, 0x22,
      0x2E]"

text \<open>\<^verbatim>\<open>it_name\<close> is the text: Razrabotka programmnogo obespecheniya\<close>

definition it_name :: jstring where
  "it_name =
     [0x420, 0x430, 0x437, 0x440, 0x430, 0x431, 0x43E, 0x442, 0x43A, 0x430, 0x20, 0x43F,
      0x440, 0x43E, 0x433, 0x440, 0x430, 0x43C, 0x43C, 0x43D, 0x43E, 0x433, 0x43E,
      0x20, 0x43E, 0x431, 0x435, 0x441, 0x43F, 0x435, 0x447, 0x435, 0x43D, 0x438, 0x44F]"

text \<open>\<^verbatim>\<open>it_explanation\<close> is the text: Osnovnaya IT-deyatelnost\<close>

definition it_explanation :: jstring where
  "it_explanation =
     [0x41E, 0x441, 0x43D, 0x43E, 0x432, 0x43D, 0x430, 0x44F, 0x20, 0x49, 0x54, 0x2D, 0x434,
      0x435, 0x44F, 0x442, 0x435, 0x43B, 0x44C, 0x43D, 0x43E, 0x441, 0x442, 0x44C]"

text \<open>\<^verbatim>\<open>it_suggestion_1\<close> is the text: IT-konsalting\<close>

definition it_suggestion_1 :: jstring where
  "it_suggestion_1 =
     [0x49, 0x54, 0x2D, 0x43A, 0x43E, 0x43D, 0x441, 0x430, 0x43B, 0x442, 0x438, 0x43D, 0x433]"

text \<open>\<^verbatim>\<open>it_suggestion_2\<close> is the text: Veb-razrabotka\<close>

definition it_suggestion_2 :: jstring where
  "it_suggestion_2 =
     [0x412, 0x435, 0x431, 0x2D, 0x440, 0x430, 0x437, 0x440, 0x430, 0x431, 0x43E, 0x442,
      0x43A, 0x430]"

text \<open>\<^verbatim>\<open>it_suggestion_3\<close> is the text: Sistemnaya integratsiya\<close>

definition it_suggestion_3 :: jstring where
  "it_suggestion_3 =
     [0x421, 0x438, 0x441, 0x442, 0x435, 0x43C, 0x43D, 0x430, 0x44F, 0x20, 0x438, 0x43D,
      0x442, 0x435, 0x433, 0x440, 0x430, 0x446, 0x438, 0x44F]"

text \<open>\<^verbatim>\<open>offline_response_tail\<close> is the text: '' sistema rabotaet v rezhime oflayn. Dlya polucheniya tochnoy informatsii po klassifikatsii OKED rekomenduetsya nastroit podklyuchenie k Anthropic API.\<close>

definition offline_response_tail :: jstring where
  "offline_response_tail =
     [0x22, 0x20, 0x441, 0x438, 0x441, 0x442, 0x435, 0x43C, 0x430, 0x20, 0x440, 0x430,
      0x431, 0x43E, 0x442, 0x430, 0x435, 0x442, 0x20, 0x432, 0x20, 0x440, 0x435, 0x436,
      0x438, 0x43C, 0x435, 0x20, 0x43E, 0x444, 0x43B, 0x430, 0x439, 0x43D, 0x2E, 0x20,
      0x414, 0x43B, 0x44F, 0x20, 0x43F, 0x43E, 0x43B, 0x443, 0x447, 0x435, 0x43D,
      0x438, 0x44F, 0x20, 0x442, 0x43E, 0x447, 0x43D, 0x43E, 0x439, 0x20, 0x438, 0x43D,
      0x444, 0x43E, 0x440, 0x43C, 0x430, 0x446, 0x438, 0x438, 0x20, 0x43F, 0x43E, 0x20,
      0x43A, 0x43B, 0x430, 0x441, 0x441, 0x438, 0x444, 0x438, 0x43A, 0x430, 0x446,
      0x438, 0x438, 0x20, 0x41E, 0x41A, 0x42D, 0x414, 0x20, 0x440, 0x435, 0x43A, 0x43E,
      0x43C, 0x435, 0x43D, 0x434, 0x443, 0x435, 0x442, 0x441, 0x44F, 0x20, 0x43D,
      0x430, 0x441, 0x442, 0x440, 0x43E, 0x438, 0x442, 0x44C, 0x20, 0x43F, 0x43E,
      0x434, 0x43A, 0x43B, 0x44E, 0x447, 0x435, 0x43D, 0x438, 0x435, 0x20, 0x43A, 0x20,
      0x41, 0x6E, 0x74, 0x68, 0x72, 0x6F, 0x70, 0x69, 0x63, 0x20, 0x41, 0x50, 0x49,
      0x2E]"

text \<open>\<^verbatim>\<open>offline_suggestion_1\<close> is the text: Poprobuyte bolee konkretnye terminy\<close>

definition offline_suggestion_1 :: jstring where
  "offline_suggestion_1 =
     [0x41F, 0x43E, 0x43F, 0x440, 0x43E, 0x431, 0x443, 0x439, 0x442, 0x435, 0x20, 0x431,
      0x43E, 0x43B, 0x435, 0x435, 0x20, 0x43A, 0x43E, 0x43D, 0x43A, 0x440, 0x435,
      0x442, 0x43D, 0x44B, 0x435, 0x20, 0x442, 0x435, 0x440, 0x43C, 0x438, 0x43D, 0x44B]"

text \<open>\<^verbatim>\<open>offline_suggestion_2\<close> is the text: Obratites k spetsialistu po OKED\<close>

definition offline_suggestion_2 :: jstring where
  "offline_suggestion_2 =
     [0x41E, 0x431, 0x440, 0x430, 0x442, 0x438, 0x442, 0x435, 0x441, 0x44C, 0x20, 0x43A,
      0x20, 0x441, 0x43F, 0x435, 0x446, 0x438, 0x430, 0x43B, 0x438, 0x441, 0x442,
      0x443, 0x20, 0x43F, 0x43E, 0x20, 0x41E, 0x41A, 0x42D, 0x414]"

text \<open>\<^verbatim>\<open>offline_suggestion_3\<close> is the text: Nastroyte API klyuch dlya rasshirennoy funktsionalnosti\<close>

definition offline_suggestion_3 :: jstring where
  "offline_suggestion_3 =
     [0x41D, 0x430, 0x441, 0x442, 0x440, 0x43E, 0x439, 0x442, 0x435, 0x20, 0x41, 0x50, 0x49,
      0x20, 0x43A, 0x43B, 0x44E, 0x447, 0x20, 0x434, 0x43B, 0x44F, 0x20, 0x440, 0x430,
      0x441, 0x448, 0x438, 0x440, 0x435, 0x43D, 0x43D, 0x43E, 0x439, 0x20, 0x444,
      0x443, 0x43D, 0x43A, 0x446, 0x438, 0x43E, 0x43D, 0x430, 0x43B, 0x44C, 0x43D,
      0x43E, 0x441, 0x442, 0x438]"

text \<open>\<^verbatim>\<open>warning_1\<close> is the text: Sistema rabotaet bez podklyucheniya k AI\<close>

definition warning_1 :: jstring where
  "warning_1 =
     [0x421, 0x438, 0x441, 0x442, 0x435, 0x43C, 0x430, 0x20, 0x440, 0x430, 0x431, 0x43E,
      0x442, 0x430, 0x435, 0x442, 0x20, 0x431, 0x435, 0x437, 0x20, 0x43F, 0x43E, 0x434,
      0x43A, 0x43B, 0x44E, 0x447, 0x435, 0x43D, 0x438, 0x44F, 0x20, 0x43A, 0x20, 0x41,
      0x49]"

text \<open>\<^verbatim>\<open>warning_2\<close> is the text: Rekomenduetsya nastroit ANTHROPIC_API_KEY dlya polnoy funktsionalnosti\<close>

definition warning_2 :: jstring where
  "warning_2 =
     [0x420, 0x435, 0x43A, 0x43E, 0x43C, 0x435, 0x43D, 0x434, 0x443, 0x435, 0x442, 0x441,
      0x44F, 0x20, 0x43D, 0x430, 0x441, 0x442, 0x440, 0x43E, 0x438, 0x442, 0x44C, 0x20,
      0x41, 0x4E, 0x54, 0x48, 0x52, 0x4F, 0x50, 0x49, 0x43, 0x5F, 0x41, 0x50, 0x49,
      0x5F, 0x4B, 0x45, 0x59, 0x20, 0x434, 0x43B, 0x44F, 0x20, 0x43F, 0x43E, 0x43B,
      0x43D, 0x43E, 0x439, 0x20, 0x444, 0x443, 0x43D, 0x43A, 0x446, 0x438, 0x43E,
      0x43D, 0x430, 0x43B, 0x44C, 0x43D, 0x43E, 0x441, 0x442, 0x438]"

text \<open>
  \<^verbatim>\<open>generateFallbackResponse(userQuery, res, cache, cacheKey)\<close> (lines 321 to 370), with the
  time of its \<^verbatim>\<open>cache.set\<close>. \<^verbatim>\<open>userQuery.toLowerCase()\<close> throws when \<open>userQuery\<close> is not a
  string.
\<close>

definition generateFallbackResponse ::
  "jsval \<Rightarrow> nat \<Rightarrow> jstring \<Rightarrow> state \<Rightarrow> (js_error + response) \<times> state" where
  "generateFallbackResponse userQuery now key s =
     (case userQuery of
        Str q \<Rightarrow>
          let queryLower = toLowerCase q;
              (response, codes, suggestions) =
                (if includes_str queryLower kw_restoran \<or> includes_str queryLower kw_kafe
                    \<or> includes_str queryLower kw_pitanie \<or> includes_str queryLower (ascii ''restaurant'')
                 then (po_zaprosu @ q @ food_response_tail,
                       [Obj [(ascii ''code'', Str (ascii ''56100'')),
                             (ascii ''name'', Str food_name),
                             (ascii ''level'', Str podklass),
                             (ascii ''explanation'', Str food_explanation)]],
                       [Str food_suggestion_1, Str food_suggestion_2])
                 else if includes_str queryLower kw_magazin \<or> includes_str queryLower kw_torgovlya
                    \<or> includes_str queryLower kw_prodazha
                 then (po_zaprosu @ q @ retail_response_tail,
                       [Obj [(ascii ''code'', Str (ascii ''47111'')),
                             (ascii ''name'', Str retail_name),
                             (ascii ''level'', Str podklass),
                             (ascii ''explanation'', Str retail_explanation)]],
                       [Str retail_suggestion_1, Str retail_suggestion_2])
                 else if includes_str queryLower kw_programmirovanie \<or> includes_str queryLower kw_soft
                    \<or> includes_str queryLower (ascii ''it'')
                 then (po_zaprosu @ q @ it_response_tail,
                       [Obj [(ascii ''code'', Str (ascii ''62010'')),
                             (ascii ''name'', Str it_name),
                             (ascii ''level'', Str podklass),
                             (ascii ''explanation'', Str it_explanation)]],
                       [Str it_suggestion_1, Str it_suggestion_2, Str it_suggestion_3])
                 else (po_zaprosu @ q @ offline_response_tail,
                       [],
                       [Str offline_suggestion_1, Str offline_suggestion_2,
                        Str offline_suggestion_3]));
              result =
                Obj [(ascii ''content'',
                      Str (JSON_stringify
                        (Obj [(ascii ''response'', Str response),
                              (ascii ''codes'', Arr codes),
                              (ascii ''suggestions'', Arr suggestions),
                              (ascii ''confidence'', Str (ascii ''low'')),
                              (ascii ''warnings'', Arr [Str warning_1, Str warning_2]),
                              (ascii ''fallback'', Bool True)]))),
                     (ascii ''fallback'', Bool True),
                     (ascii ''enhanced'', Bool False)]
          in (Inr (Response 200 result), cache_set now key result s)
      | _ \<Rightarrow> (Inl TypeError, s))"

subsection \<open>The two provider calls\<close>

definition prompt_head :: jstring where
  "prompt_head = concat
    [ascii ''You are an expert OKED (Kazakhstan Economic Activity Classification) consultant and business intelligence analyst for Kazakhstan.'',
     nl,
     nl,
     ascii ''CONTEXT: OKED Classification System'',
     nl,
     ascii ''- OKED is Kazakhstan's standard for economic activity classification'',
     nl,
     ascii ''- Based on international NACE Rev.2 standards  '',
     nl,
     ascii ''- Hierarchical structure: Sections (A-U) '',
     [0x2192],
     ascii '' Groups (2-digit) '',
     [0x2192],
     ascii '' Classes (3-digit) '',
     [0x2192],
     ascii '' Subclasses (4-digit) '',
     [0x2192],
     ascii '' Activities (5-digit)'',
     nl,
     ascii ''- Required for business registration, taxation, and statistical reporting'',
     nl,
     nl,
     ascii ''KAZAKHSTAN BUSINESS STATISTICS (Official stat.gov.kz data):'',
     nl,
     ascii ''- Total Registered Entities: 2,383,083 businesses'',
     nl,
     ascii ''- Legal Entities: 543,725 (22.8%) - Medium to large businesses'',
     nl,
     ascii ''- Individual Entrepreneurs: 1,839,358 (77.2%) - Small business backbone'',
     nl,
     ascii ''- Annual Growth Rate: 4.5% sustainable growth over past decade'',
     nl,
     ascii ''- Active Business Rate: ~85% of registered entities remain operational'',
     nl,
     nl,
     ascii ''SECTOR DISTRIBUTION:'',
     nl,
     ascii ''- Trade & Services (Sections G, I, M, N): 60% of businesses - Stable growth'',
     nl,
     ascii ''- Manufacturing (Section C): 15% - Technology modernization focus'',
     nl,
     ascii ''- Construction (Section F): 8% - Infrastructure boom '',
     nl,
     ascii ''- Agriculture (Section A): 12% - Digitalization opportunities'',
     nl,
     ascii ''- IT & Communications (Section J): 3% - Fastest growing (+12.3% annually)'',
     nl,
     ascii ''- Other Sectors: 2% - Specialized services'',
     nl,
     nl,
     ascii ''REGIONAL DISTRIBUTION:'',
     nl,
     ascii ''- Almaty: 35% of businesses - Financial & tech hub, high competition'',
     nl,
     ascii ''- Nur-Sultan: 28% - Government & corporate services, growing startups  '',
     nl,
     ascii ''- Shymkent: 8% - Manufacturing & trade opportunities'',
     nl,
     ascii ''- Atyrau/Mangystau: 6% - Energy sector, service gaps'',
     nl,
     ascii ''- Other Regions: 23% - Agriculture & regional services, expansion potential'',
     nl,
     nl,
     ascii ''MARKET OPPORTUNITIES:'',
     nl,
     ascii ''- High-Growth Sectors: IT (+12.3%), E-commerce (+8.7%), Renewable Energy (+6.2%)'',
     nl,
     ascii ''- Emerging Markets: AgriTech, FinTech, Green Technology, Tourism Tech'',
     nl,
     ascii ''- Investment: $24.3B foreign investment in 2023 (energy, mining, technology)'',
     nl,
     ascii ''- Government Support: Tax incentives, special economic zones, digital grants'',
     nl,
     nl,
     ascii ''USER QUERY: \"'']"

definition prompt_tail :: jstring where
  "prompt_tail = concat
    [ascii ''\"'',
     nl,
     nl,
     ascii ''INSTRUCTIONS:'',
     nl,
     ascii ''1. Respond in the same language as the user's query (e.g., if the query is in Russian, respond in Russian).'',
     nl,
     ascii ''2. Provide comprehensive, accurate information about OKED classification '',
     nl,
     ascii ''3. Include relevant business statistics for Kazakhstan when discussing industries'',
     nl,
     ascii ''4. Format responses as JSON with this structure:'',
     nl,
     ascii ''{'',
     nl,
     ascii ''  \"response\": \"detailed answer with Kazakhstan business context\",'',
     nl,
     ascii ''  \"codes\": [{\"code\": \"XXXXX\", \"name\": \"Activity name\", \"level\": \"Activity level\", \"explanation\": \"relevance\"}],'',
     nl,
     ascii ''  \"suggestions\": [\"related query 1\", \"related query 2\", \"related query 3\"],'',
     nl,
     ascii ''  \"confidence\": \"high|medium|low\",'',
     nl,
     ascii ''  \"queryType\": \"business_stats|knowledge|search|code\"'',
     nl,
     ascii ''}'',
     nl,
     nl,
     ascii ''4. For business statistics queries, include real Kazakhstan data and growth trends'',
     nl,
     ascii ''5. For OKED codes, provide complete hierarchy and examples'',
     nl,
     ascii ''6. Always include actionable suggestions for follow-up queries'',
     nl,
     ascii ''7. Use official Kazakhstan business intelligence when available'']"

text \<open>\<^verbatim>\<open>userMessage.content\<close>; the user message is an object, so the read does not throw.\<close>

definition content_of :: "jsval \<Rightarrow> jsval" where
  "content_of userMessage =
     (case get_prop userMessage (ascii ''content'') of Next v \<Rightarrow> v | _ \<Rightarrow> Undefined)"

text \<open>The arguments of the two calls of \<^verbatim>\<open>anthropic.messages.create\<close> (lines 198 and 222).\<close>

definition enhanced_request :: "jsval \<Rightarrow> jsval \<Rightarrow> jsval" where
  "enhanced_request mdl userMessage =
     Obj [(ascii ''model'', mdl),
          (ascii ''max_tokens'', Num (ascii ''4000'')),
          (ascii ''messages'',
             Arr [Obj [(ascii ''role'', Str (ascii ''user'')),
                       (ascii ''content'',
                          Str (prompt_head @ ToString (content_of userMessage) @ prompt_tail))]]),
          (ascii ''temperature'', Num (ascii ''0.3''))]"

definition basic_request :: "jsval \<Rightarrow> jsval list \<Rightarrow> jsval" where
  "basic_request mdl ms =
     Obj [(ascii ''model'', mdl),
          (ascii ''max_tokens'', Num (ascii ''4000'')),
          (ascii ''messages'', Arr ms),
          (ascii ''temperature'', Num (ascii ''0.3''))]"

text \<open>\<^verbatim>\<open>response.content[0].text\<close> and \<^verbatim>\<open>response.usage\<close>, in the order the object literal of
  \<open>result\<close> reads them.\<close>

definition text_and_usage :: "jsval \<Rightarrow> (jsval \<times> jsval) flow" where
  "text_and_usage resp =
     bind_flow (get_prop resp (ascii ''content'')) (\<lambda>blocks.
     bind_flow (index0 blocks) (\<lambda>block.
     bind_flow (get_prop block (ascii ''text'')) (\<lambda>txt.
     bind_flow (get_prop resp (ascii ''usage'')) (\<lambda>usage.
       Next (txt, usage)))))"

text \<open>The inner \<^verbatim>\<open>try\<close> block (lines 137 to 216); \<open>Inl\<close> is what its \<^verbatim>\<open>catch\<close> receives.\<close>

definition enhanced_attempt ::
  "env \<Rightarrow> nat \<Rightarrow> jstring \<Rightarrow> jsval \<Rightarrow> jsval \<Rightarrow> state \<Rightarrow> (js_error + response) \<times> state" where
  "enhanced_attempt e now key mdl userMessage s =
     (let (out, s1) = create e (enhanced_request mdl userMessage) s in
      case out of
        Rejected err \<Rightarrow> (Inl err, s1)
      | Resolved resp \<Rightarrow>
          (case text_and_usage resp of
             Throw err \<Rightarrow> (Inl err, s1)
           | Return r \<Rightarrow> (Inr r, s1)
           | Next (txt, usage) \<Rightarrow>
               let result =
                     Obj [(ascii ''content'', txt),
                          (ascii ''usage'', usage),
                          (ascii ''enhanced'', Bool True),
                          (ascii ''queryType'', Str (ascii ''claude_intelligence'')),
                          (ascii ''originalQuery'', content_of userMessage)]
               in (Inr (Response 200 result), cache_set now key result s1)))"

text \<open>The \<^verbatim>\<open>try\<close> block inside the \<^verbatim>\<open>catch\<close> (lines 221 to 240); its own \<^verbatim>\<open>catch\<close> throws the
  error again.\<close>

definition basic_attempt ::
  "env \<Rightarrow> nat \<Rightarrow> jstring \<Rightarrow> jsval \<Rightarrow> jsval list \<Rightarrow> state \<Rightarrow> (js_error + response) \<times> state" where
  "basic_attempt e now key mdl ms s =
     (let (out, s1) = create e (basic_request mdl ms) s in
      case out of
        Rejected err \<Rightarrow> (Inl err, s1)
      | Resolved resp \<Rightarrow>
          (case text_and_usage resp of
             Throw err \<Rightarrow> (Inl err, s1)
           | Return r \<Rightarrow> (Inr r, s1)
           | Next (txt, usage) \<Rightarrow>
               let result =
                     Obj [(ascii ''content'', txt),
                          (ascii ''usage'', usage),
                          (ascii ''enhanced'', Bool False),
                          (ascii ''queryType'', Str (ascii ''fallback''))]
               in (Inr (Response 200 result), cache_set now key result s1)))"

subsection \<open>The handler\<close>

text \<open>
  The body of the outer \<^verbatim>\<open>try\<close> (lines 70 to 241). \<open>t_get\<close> is the clock when the cache is
  read, \<open>t_set\<close> the clock when the result is stored, after the provider has answered.
\<close>

definition claude_try ::
  "env \<Rightarrow> nat \<Rightarrow> nat \<Rightarrow> jsval \<Rightarrow> state \<Rightarrow> (js_error + response) \<times> state" where
  "claude_try e t_get t_set body s =
     (case validate body of
        Throw err \<Rightarrow> (Inl err, s)
      | Return r \<Rightarrow> (Inr r, s)
      | Next (ms, mdl, userMessage) \<Rightarrow>
          let (cached, s1) = cache_get t_get (cacheKey ms) s in
          if truthy cached then (Inr (Response 200 cached), s1)
          else if \<not> api_key_configured e
          then generateFallbackResponse (content_of userMessage) t_set (cacheKey ms) s1
          else
            (case enhanced_attempt e t_set (cacheKey ms) mdl userMessage s1 of
               (Inr r, s2) \<Rightarrow> (Inr r, s2)
             | (Inl enhancedError, s2) \<Rightarrow> basic_attempt e t_set (cacheKey ms) mdl ms s2))"

text \<open>The outer \<^verbatim>\<open>catch\<close> (lines 243 to 253).\<close>

definition error_response :: "js_error \<Rightarrow> response" where
  "error_response error =
     (if status error = Some 429
      then Response 429 (error_body ''Rate limit exceeded. Please try again later.'')
      else if status error = Some 400
      then Response 400 (error_body ''Invalid request format'')
      else Response 500 (error_body ''Internal server error''))"

definition claude_handler :: "env \<Rightarrow> nat \<Rightarrow> nat \<Rightarrow> jsval \<Rightarrow> state \<Rightarrow> response \<times> state" where
  "claude_handler e t_get t_set body s =
     (case claude_try e t_get t_set body s of
        (Inl error, s') \<Rightarrow> (error_response error, s')
      | (Inr r, s') \<Rightarrow> (r, s'))"

section \<open>GET /api/statistics/:okedCode\<close>

text \<open>\<^verbatim>\<open>/^[A-U]$|^\d{1,5}$/.test(okedCode)\<close>: one letter from A to U, or one to five of the
  digits 0 to 9.\<close>

definition oked_code_format :: "jstring \<Rightarrow> bool" where
  "oked_code_format code =
     ((length code = 1 \<and> list_all (\<lambda>c. 0x41 \<le> c \<and> c \<le> 0x55) code)
      \<or> (1 \<le> length code \<and> length code \<le> 5 \<and> list_all (\<lambda>c. 0x30 \<le> c \<and> c \<le> 0x39) code))"

text \<open>Lines 257 to 286. Express gives the route parameter as a string.\<close>

definition statistics_handler :: "nat \<Rightarrow> jsval \<Rightarrow> state \<Rightarrow> response \<times> state" where
  "statistics_handler now okedCode s =
     (case okedCode of
        Str code \<Rightarrow>
          if \<not> truthy okedCode
          then (Response 400 (error_body ''OKED code is required''), s)
          else if \<not> oked_code_format code
          then (Response 400 (error_body ''Invalid OKED code format''), s)
          else
            let (cached, s1) = cache_get now (ascii ''stats_'' @ code) s in
            if truthy cached then (Response 200 cached, s1)
            else (Response 501 (error_body
              ''Real statistics integration in progress. See https://github.com/kazdatahelp/oked-catalogue-assistant/issues/6''), s1)
      | _ \<Rightarrow> (Response 400 (error_body ''OKED code is required''), s))"

section \<open>GET /api/oked/sections\<close>

definition section_record :: "string \<Rightarrow> string \<Rightarrow> string \<Rightarrow> jsval" where
  "section_record c n d =
     Obj [(ascii ''code'', Str (ascii c)), (ascii ''name'', Str (ascii n)),
          (ascii ''description'', Str (ascii d))]"

definition sections :: "jsval list" where
  "sections =
     [section_record ''A'' ''Agriculture, forestry and fishing'' ''Section A - Agriculture'',
      section_record ''B'' ''Mining and quarrying'' ''Section B - Mining'',
      section_record ''C'' ''Manufacturing'' ''Section C - Manufacturing'',
      section_record ''F'' ''Construction'' ''Section F - Construction'',
      section_record ''G'' ''Wholesale and retail trade'' ''Section G - Trade'',
      section_record ''I'' ''Accommodation and food service activities''
        ''Section I - Hospitality'',
      section_record ''J'' ''Information and communication''
        ''Section J - IT & Communications'',
      section_record ''M'' ''Professional, scientific and technical activities''
        ''Section M - Professional Services'']"

definition sections_result :: jsval where
  "sections_result = Obj [(ascii ''data'', Arr sections), (ascii ''cached'', Bool False)]"

text \<open>Lines 289 to 318.\<close>

definition sections_handler :: "nat \<Rightarrow> nat \<Rightarrow> state \<Rightarrow> response \<times> state" where
  "sections_handler t_get t_set s =
     (let (cached, s1) = cache_get t_get (ascii ''oked_sections'') s in
      if truthy cached then (Response 200 cached, s1)
      else (Response 200 sections_result, cache_set t_set (ascii ''oked_sections'') sections_result s1))"

section \<open>The server as a sequence of requests\<close>

text \<open>
  A request is one that reaches its handler: the middleware in front of the routes (security
  headers, CORS, the rate limiter, the body parser) is not modelled. It comes with the two
  clock readings of its handler. The requests are handled one after the other, from the
  empty cache of a new process; \<^verbatim>\<open>GET /health\<close> reads the state and changes nothing, and is
  left out.
\<close>

datatype request = PostClaude jsval | GetStatistics jsval | GetSections

fun handle :: "env \<Rightarrow> nat \<times> nat \<times> request \<Rightarrow> state \<Rightarrow> response \<times> state" where
  "handle e (t_get, t_set, PostClaude body) s = claude_handler e t_get t_set body s"
| "handle e (t_get, t_set, GetStatistics okedCode) s = statistics_handler t_get okedCode s"
| "handle e (t_get, t_set, GetSections) s = sections_handler t_get t_set s"

fun run :: "env \<Rightarrow> (nat \<times> nat \<times> request) list \<Rightarrow> state \<Rightarrow> state" where
  "run e [] s = s"
| "run e (r # rs) s = run e rs (snd (handle e r s))"

section \<open>Example requests and environments\<close>

definition chat_message :: "string \<Rightarrow> jstring \<Rightarrow> jsval" where
  "chat_message r c = Obj [(ascii ''role'', Str (ascii r)), (ascii ''content'', Str c)]"

definition chat_body :: "jsval list \<Rightarrow> jsval" where
  "chat_body ms = Obj [(ascii ''messages'', Arr ms)]"

definition chat_body_with_model :: "jsval list \<Rightarrow> string \<Rightarrow> jsval" where
  "chat_body_with_model ms m = Obj [(ascii ''messages'', Arr ms), (ascii ''model'', Str (ascii m))]"

text \<open>A message of the provider with one text block.\<close>

definition provider_message :: "string \<Rightarrow> jsval" where
  "provider_message t =
     Obj [(ascii ''content'', Arr [Obj [(ascii ''type'', Str (ascii ''text'')),
                                         (ascii ''text'', Str (ascii t))]]),
          (ascii ''usage'', Obj [(ascii ''input_tokens'', Num (ascii ''10'')),
                                  (ascii ''output_tokens'', Num (ascii ''2''))])]"

text \<open>No credential: the provider is never reached.\<close>

definition offline_env :: env where
  "offline_env = \<lparr>ANTHROPIC_API_KEY = None, provider = (\<lambda>log request. Rejected (APIError None))\<rparr>"

text \<open>A provider that rejects the first call it gets and answers every later one.\<close>

definition flaky_env :: env where
  "flaky_env =
     \<lparr>ANTHROPIC_API_KEY = Some (ascii ''sk-test''),
      provider = (\<lambda>log request.
        if log = [] then Rejected (APIError (Some 529)) else Resolved (provider_message ''ok''))\<rparr>"

text \<open>A provider that is rate limited on every call.\<close>

definition limited_env :: env where
  "limited_env =
     \<lparr>ANTHROPIC_API_KEY = Some (ascii ''sk-test''),
      provider = (\<lambda>log request. Rejected (APIError (Some 429)))\<rparr>"

text \<open>A provider that answers every call.\<close>

definition steady_env :: env where
  "steady_env =
     \<lparr>ANTHROPIC_API_KEY = Some (ascii ''sk-test''),
      provider = (\<lambda>log request. Resolved (provider_message ''ok''))\<rparr>"

definition hello_messages :: "jsval list" where
  "hello_messages = [chat_message ''user'' (ascii ''hello'')]"

definition haiku_body :: jsval where
  "haiku_body = chat_body_with_model hello_messages ''claude-3-haiku-20240307''"

definition opus_body :: jsval where
  "opus_body = chat_body_with_model hello_messages ''claude-3-opus-20240229''"

definition hello_result :: jsval where
  "hello_result =
     Obj [(ascii ''content'', Str (ascii ''ok'')),
          (ascii ''usage'', Obj [(ascii ''input_tokens'', Num (ascii ''10'')),
                                  (ascii ''output_tokens'', Num (ascii ''2''))]),
          (ascii ''enhanced'', Bool True),
          (ascii ''queryType'', Str (ascii ''claude_intelligence'')),
          (ascii ''originalQuery'', Str (ascii ''hello''))]"

text \<open>The answer of the second call of the provider, after the first one has failed.\<close>

definition hello_retry_result :: jsval where
  "hello_retry_result =
     Obj [(ascii ''content'', Str (ascii ''ok'')),
          (ascii ''usage'', Obj [(ascii ''input_tokens'', Num (ascii ''10'')),
                                  (ascii ''output_tokens'', Num (ascii ''2''))]),
          (ascii ''enhanced'', Bool False),
          (ascii ''queryType'', Str (ascii ''fallback''))]"

text \<open>A question about a restaurant in Almaty, the keyword in lower case.\<close>

definition restoran_messages :: "jsval list" where
  "restoran_messages = [chat_message ''user'' (kw_restoran @ ascii '' Almaty'')]"

section \<open>What the cache of a running server holds\<close>

text \<open>
  The three handlers store under the key \<^verbatim>\<open>oked_sections\<close> (the sections result) and under keys
  that start with \<^verbatim>\<open>enhanced_claude_\<close>, and under no other key.
\<close>

definition cache_inv :: "state \<Rightarrow> bool" where
  "cache_inv s =
     (\<forall>k v ex. cache s k = Some (v, ex) \<longrightarrow>
        (k = ascii ''oked_sections'' \<and> v = sections_result)
        \<or> prefix (ascii ''enhanced_claude_'') k)"

text \<open>The messages of the early returns of lines 73 to 120.\<close>

definition validation_messages :: "string list" where
  "validation_messages =
     [''Messages array is required'', ''Messages array cannot be empty'',
      ''Too many messages in conversation'',
      ''Invalid message format: role and content required'', ''Invalid message role'',
      ''Message content must be a string'', ''Message content too long'',
      ''Invalid model specified'', ''No user message found'']"

text \<open>Some requests, with their clock readings.\<close>

definition morning_requests :: "(nat \<times> nat \<times> request) list" where
  "morning_requests =
     [(1000, 1001, GetSections),
      (2000, 2900, PostClaude (chat_body hello_messages)),
      (3000, 3001, GetStatistics (Str (ascii ''A''))),
      (4000000, 4000001, GetSections)]"

section \<open>Properties of the validation\<close>

lemma get_prop_not_Return [simp]: "get_prop v k \<noteq> Return r"
  by (cases v) simp_all

lemma index0_not_Return [simp]: "index0 v \<noteq> Return r"
  by (cases v rule: index0.cases) simp_all

lemma bind_flow_Next_iff:
  "bind_flow x f = Next y \<longleftrightarrow> (\<exists>a. x = Next a \<and> f a = Next y)"
  by (cases x) simp_all

lemma bind_flow_Return_iff:
  "bind_flow x f = Return r \<longleftrightarrow> x = Return r \<or> (\<exists>a. x = Next a \<and> f a = Return r)"
  by (cases x) simp_all

lemma bind_flow_Throw_iff:
  "bind_flow x f = Throw e \<longleftrightarrow> x = Throw e \<or> (\<exists>a. x = Next a \<and> f a = Throw e)"
  by (cases x) simp_all

lemma check_message_Next:
  "check_message m = Next u \<longleftrightarrow>
     (\<exists>r c. get_prop m (ascii ''role'') = Next r \<and> get_prop m (ascii ''content'') = Next (Str c)
        \<and> r \<in> set [Str (ascii ''user''), Str (ascii ''assistant''), Str (ascii ''system'')]
        \<and> c \<noteq> [] \<and> length c \<le> 10000)"
proof
  assume a: "check_message m = Next u"
  obtain r where r: "get_prop m (ascii ''role'') = Next r"
    using a by (cases "get_prop m (ascii ''role'')") (simp_all add: check_message_def)
  have tr: "truthy r"
    using a r by (simp add: check_message_def split: if_splits)
  obtain c0 where c0: "get_prop m (ascii ''content'') = Next c0"
    using a r tr by (cases "get_prop m (ascii ''content'')") (simp_all add: check_message_def)
  have tc: "truthy c0"
    using a r tr c0 by (simp add: check_message_def split: if_splits)
  have rl: "r \<in> set [Str (ascii ''user''), Str (ascii ''assistant''), Str (ascii ''system'')]"
    using a r tr c0 tc by (simp add: check_message_def split: if_splits)
  obtain c where c: "c0 = Str c"
    using a r tr c0 tc rl by (cases c0) (auto simp: check_message_def split: if_splits)
  have "length c \<le> 10000"
    using a r tr c0 tc rl c by (simp add: check_message_def split: if_splits)
  moreover have "c \<noteq> []" using tc c by simp
  ultimately show "\<exists>r c. get_prop m (ascii ''role'') = Next r
      \<and> get_prop m (ascii ''content'') = Next (Str c)
      \<and> r \<in> set [Str (ascii ''user''), Str (ascii ''assistant''), Str (ascii ''system'')]
      \<and> c \<noteq> [] \<and> length c \<le> 10000"
    using r c0 c rl by blast
next
  assume "\<exists>r c. get_prop m (ascii ''role'') = Next r
      \<and> get_prop m (ascii ''content'') = Next (Str c)
      \<and> r \<in> set [Str (ascii ''user''), Str (ascii ''assistant''), Str (ascii ''system'')]
      \<and> c \<noteq> [] \<and> length c \<le> 10000"
  then obtain r c where r: "get_prop m (ascii ''role'') = Next r"
    and c: "get_prop m (ascii ''content'') = Next (Str c)"
    and rl: "r \<in> set [Str (ascii ''user''), Str (ascii ''assistant''), Str (ascii ''system'')]"
    and ne: "c \<noteq> []" and le: "length c \<le> 10000"
    by blast
  have "truthy r" using rl by (auto simp: ascii_def)
  then show "check_message m = Next u"
    using r c rl ne le by (simp add: check_message_def)
qed

lemma check_messages_append:
  "check_messages pre = Next u \<Longrightarrow> check_messages (pre @ rest) = check_messages rest"
  by (induction pre) (auto split: flow.splits)

lemma check_messages_all:
  "check_messages ms = Next u \<Longrightarrow> m \<in> set ms \<Longrightarrow> check_message m = Next ()"
  by (induction ms) (auto split: flow.splits)

lemma get_prop_Arr_Obj:
  "get_prop body k = Next (Arr xs) \<Longrightarrow> \<exists>ps. body = Obj ps"
  by (cases body) simp_all

lemma get_prop_total_Obj [simp]: "\<exists>v. get_prop (Obj ps) k = Next v"
  by simp

lemma validate_shape_Next:
  "validate_shape body = Next (ms, mdl) \<longleftrightarrow>
     (\<exists>m. get_prop body (ascii ''messages'') = Next (Arr ms) \<and> get_prop body (ascii ''model'') = Next m
        \<and> mdl = (if m = Undefined then Str default_model else m)
        \<and> ms \<noteq> [] \<and> length ms \<le> 50 \<and> check_messages ms = Next () \<and> mdl \<in> set allowedModels)"
proof
  assume a: "validate_shape body = Next (ms, mdl)"
  obtain msgs where msgs: "get_prop body (ascii ''messages'') = Next msgs"
    using a by (cases "get_prop body (ascii ''messages'')") (simp_all add: validate_shape_def)
  obtain m where m: "get_prop body (ascii ''model'') = Next m"
    using a msgs by (cases "get_prop body (ascii ''model'')") (simp_all add: validate_shape_def)
  have arr: "isArray msgs"
    using a msgs m by (simp add: validate_shape_def Let_def split: if_splits)
  then obtain xs where xs: "msgs = Arr xs"
    by (cases msgs) (simp_all add: isArray_def)
  have len: "xs \<noteq> []" "length xs \<le> 50"
    using a msgs m xs by (simp_all add: validate_shape_def Let_def elements_def isArray_def split: if_splits)
  have chk: "check_messages xs = Next ()"
    using a msgs m xs len
    by (cases "check_messages xs") (simp_all add: validate_shape_def Let_def elements_def isArray_def)
  have "xs = ms \<and> mdl = (if m = Undefined then Str default_model else m) \<and> mdl \<in> set allowedModels"
    using a msgs m xs len chk
    by (simp add: validate_shape_def Let_def elements_def isArray_def split: if_splits)
  then show "\<exists>m. get_prop body (ascii ''messages'') = Next (Arr ms)
        \<and> get_prop body (ascii ''model'') = Next m
        \<and> mdl = (if m = Undefined then Str default_model else m)
        \<and> ms \<noteq> [] \<and> length ms \<le> 50 \<and> check_messages ms = Next () \<and> mdl \<in> set allowedModels"
    using msgs m xs len chk by blast
next
  assume "\<exists>m. get_prop body (ascii ''messages'') = Next (Arr ms)
        \<and> get_prop body (ascii ''model'') = Next m
        \<and> mdl = (if m = Undefined then Str default_model else m)
        \<and> ms \<noteq> [] \<and> length ms \<le> 50 \<and> check_messages ms = Next () \<and> mdl \<in> set allowedModels"
  then show "validate_shape body = Next (ms, mdl)"
    by (auto simp: validate_shape_def Let_def elements_def isArray_def)
qed


lemma find_user_none:
  "check_messages ms = Next () \<Longrightarrow>
   list_all (\<lambda>m. get_prop m (ascii ''role'') \<noteq> Next (Str (ascii ''user''))) ms \<Longrightarrow>
   find_user ms = Next Undefined"
proof (induction ms)
  case Nil
  then show ?case by simp
next
  case (Cons m ms)
  from Cons.prems(1) have m: "check_message m = Next ()" and rest: "check_messages ms = Next ()"
    by (auto split: flow.splits)
  from m obtain r where r: "get_prop m (ascii ''role'') = Next r"
    by (auto simp: check_message_Next)
  with Cons.prems(2) have "r \<noteq> Str (ascii ''user'')" by auto
  with r Cons.IH rest Cons.prems(2) show ?case by simp
qed

lemma find_user_found:
  "find_user ms = Next um \<Longrightarrow> truthy um \<Longrightarrow>
   um \<in> set ms \<and> get_prop um (ascii ''role'') = Next (Str (ascii ''user''))"
  by (induction ms) (auto split: flow.splits if_splits)

lemma validate_Next:
  "validate body = Next (ms, mdl, um) \<longleftrightarrow>
     validate_shape body = Next (ms, mdl) \<and> find_user ms = Next um \<and> truthy um"
proof (cases "validate_shape body")
  case (Next p)
  obtain ms' mdl' where p: "p = (ms', mdl')" by (cases p)
  show ?thesis
    using Next p by (cases "find_user ms'") (auto simp: validate_def)
qed (simp_all add: validate_def)

lemma claude_handler_Return:
  "validate body = Return r \<Longrightarrow> claude_handler e t_get t_set body s = (r, s)"
  by (simp add: claude_handler_def claude_try_def)

lemma claude_handler_Throw:
  "validate body = Throw err \<Longrightarrow> claude_handler e t_get t_set body s = (error_response err, s)"
  by (simp add: claude_handler_def claude_try_def)

lemma check_message_Throw:
  "check_message message = Throw err \<Longrightarrow> message = Null \<or> message = Undefined"
  by (cases message) (auto simp: check_message_def split: if_splits jsval.splits)

lemma check_messages_Throw:
  "check_messages ms = Throw err \<Longrightarrow> Null \<in> set ms \<or> Undefined \<in> set ms"
  by (induction ms) (auto split: flow.splits dest: check_message_Throw)

lemma find_user_Throw:
  "find_user ms = Throw err \<Longrightarrow> Null \<in> set ms \<or> Undefined \<in> set ms"
proof (induction ms)
  case Nil
  then show ?case by simp
next
  case (Cons m ms)
  then show ?case by (cases m) (auto split: if_splits)
qed

lemma validate_shape_Throw:
  assumes "validate_shape body = Throw err"
  shows "body = Null \<or> body = Undefined
    \<or> (\<exists>ms. get_prop body (ascii ''messages'') = Next (Arr ms)
          \<and> (Null \<in> set ms \<or> Undefined \<in> set ms))"
proof (cases body)
  case (Obj ps)
  obtain msgs m where g: "get_prop body (ascii ''messages'') = Next msgs"
      "get_prop body (ascii ''model'') = Next m"
    using Obj by simp
  have "\<exists>ms. msgs = Arr ms \<and> check_messages ms = Throw err"
    using assms g
    by (cases msgs)
       (auto simp: validate_shape_def Let_def isArray_def elements_def bind_flow_Throw_iff
          split: if_splits)
  then show ?thesis using g(1) by (auto dest: check_messages_Throw)
qed (use assms in \<open>simp_all add: validate_shape_def Let_def isArray_def\<close>)

text \<open>Validation throws only on a body or a message that is \<^verbatim>\<open>null\<close> or \<^verbatim>\<open>undefined\<close>.\<close>

lemma validate_Throw:
  assumes "validate body = Throw err"
  shows "body = Null \<or> body = Undefined
    \<or> (\<exists>ms. get_prop body (ascii ''messages'') = Next (Arr ms)
          \<and> (Null \<in> set ms \<or> Undefined \<in> set ms))"
proof (cases "validate_shape body")
  case (Throw e)
  then show ?thesis by (rule validate_shape_Throw)
next
  case (Return r)
  then show ?thesis using assms by (simp add: validate_def)
next
  case (Next p)
  obtain ms mdl where p: "p = (ms, mdl)" by (cases p)
  have "find_user ms = Throw err"
    using assms Next p by (cases "find_user ms") (auto simp: validate_def split: if_splits)
  then have "Null \<in> set ms \<or> Undefined \<in> set ms" by (rule find_user_Throw)
  moreover have "get_prop body (ascii ''messages'') = Next (Arr ms)"
    using Next p by (auto simp: validate_shape_Next)
  ultimately show ?thesis by blast
qed

lemma check_message_Return:
  "check_message message = Return r \<Longrightarrow>
   \<exists>msg. msg \<in> set validation_messages \<and> r = Response 400 (error_body msg)"
  by (cases message)
     (auto simp: check_message_def validation_messages_def split: if_splits jsval.splits)

lemma check_messages_Return:
  "check_messages ms = Return r \<Longrightarrow>
   \<exists>msg. msg \<in> set validation_messages \<and> r = Response 400 (error_body msg)"
  by (induction ms) (auto split: flow.splits dest: check_message_Return)

lemma find_user_not_Return [simp]: "find_user ms \<noteq> Return r"
  by (induction ms) (auto split: flow.splits)

text \<open>Every early return of the validation is a 400 with one of the nine messages.\<close>

lemma validate_Return:
  assumes "validate body = Return r"
  shows "\<exists>msg. msg \<in> set validation_messages \<and> r = Response 400 (error_body msg)"
proof (cases "validate_shape body")
  case (Throw e)
  then show ?thesis using assms by (simp add: validate_def)
next
  case (Return r')
  then have r: "r' = r" using assms by (simp add: validate_def)
  obtain msgs m where g: "get_prop body (ascii ''messages'') = Next msgs"
      "get_prop body (ascii ''model'') = Next m"
    using Return by (cases body) (simp_all add: validate_shape_def)
  show ?thesis
  proof (cases "check_messages (elements msgs)")
    case (Return r'')
    then show ?thesis
      using \<open>validate_shape body = Return r'\<close> r g check_messages_Return [OF Return]
      by (auto simp: validate_shape_def Let_def validation_messages_def split: if_splits)
  qed (use \<open>validate_shape body = Return r'\<close> r g in
        \<open>auto simp: validate_shape_def Let_def validation_messages_def split: if_splits\<close>)
next
  case (Next p)
  obtain ms mdl where p: "p = (ms, mdl)" by (cases p)
  show ?thesis
    using assms Next p
    by (cases "find_user ms") (auto simp: validate_def validation_messages_def split: if_splits)
qed

section \<open>Properties of the cache and of the dispatch\<close>

lemma text_and_usage_not_Return [simp]: "text_and_usage resp \<noteq> Return r"
  by (auto simp: text_and_usage_def bind_flow_Return_iff)

lemma error_response_not_200 [simp]:
  "error_response err \<noteq> Response 200 p" "Response 200 p \<noteq> error_response err"
  by (simp_all add: error_response_def)

lemma calls_cache_get [simp]: "calls (snd (cache_get t k s)) = calls s"
  by (simp add: cache_get_def split: option.splits prod.splits)

lemma cache_get_hit:
  "cache s k = Some (v, ex) \<Longrightarrow> ex = 0 \<or> t \<le> ex \<Longrightarrow>
   cache_get t k s = (v, s\<lparr>hits := hits s + 1\<rparr>)"
  by (auto simp: cache_get_def)

lemma cache_cache_set:
  "cache (cache_set t k v s) = (cache s)(k \<mapsto> (v, t + stdTTL * 1000))"
  by (simp add: cache_set_def)

lemma calls_cache_set [simp]: "calls (cache_set t k v s) = calls s"
  by (simp add: cache_set_def)

lemma fallback_cases:
  "generateFallbackResponse u t k s = (Inl TypeError, s) \<and> (\<forall>q. u \<noteq> Str q)
   \<or> (\<exists>c. generateFallbackResponse u t k s =
        (Inr (Response 200 (Obj [(ascii ''content'', Str c), (ascii ''fallback'', Bool True),
                                 (ascii ''enhanced'', Bool False)])),
         cache_set t k (Obj [(ascii ''content'', Str c), (ascii ''fallback'', Bool True),
                             (ascii ''enhanced'', Bool False)]) s))"
  by (cases u) (simp_all add: generateFallbackResponse_def Let_def split_beta)

lemma enhanced_attempt_cases:
  "(\<exists>err. enhanced_attempt e t k mdl um s
       = (Inl err, s\<lparr>calls := calls s @ [enhanced_request mdl um]\<rparr>))
   \<or> (\<exists>ps. enhanced_attempt e t k mdl um s
       = (Inr (Response 200 (Obj ps)),
          cache_set t k (Obj ps) (s\<lparr>calls := calls s @ [enhanced_request mdl um]\<rparr>)))"
  by (cases "provider e (calls s) (enhanced_request mdl um)";
      cases "text_and_usage (case provider e (calls s) (enhanced_request mdl um) of Resolved r \<Rightarrow> r | _ \<Rightarrow> Undefined)")
     (auto simp: enhanced_attempt_def create_def Let_def)

lemma basic_attempt_cases:
  "(\<exists>err. basic_attempt e t k mdl ms s
       = (Inl err, s\<lparr>calls := calls s @ [basic_request mdl ms]\<rparr>))
   \<or> (\<exists>ps. basic_attempt e t k mdl ms s
       = (Inr (Response 200 (Obj ps)),
          cache_set t k (Obj ps) (s\<lparr>calls := calls s @ [basic_request mdl ms]\<rparr>)))"
  by (cases "provider e (calls s) (basic_request mdl ms)";
      cases "text_and_usage (case provider e (calls s) (basic_request mdl ms) of Resolved r \<Rightarrow> r | _ \<Rightarrow> Undefined)")
     (auto simp: basic_attempt_def create_def Let_def)


lemma claude_try_valid:
  assumes "validate body = Next (ms, mdl, um)"
  shows "claude_try e t t' body s =
     (if truthy (fst (cache_get t (cacheKey ms) s))
      then (Inr (Response 200 (fst (cache_get t (cacheKey ms) s))), snd (cache_get t (cacheKey ms) s))
      else if \<not> api_key_configured e
      then generateFallbackResponse (content_of um) t' (cacheKey ms) (snd (cache_get t (cacheKey ms) s))
      else (case enhanced_attempt e t' (cacheKey ms) mdl um (snd (cache_get t (cacheKey ms) s)) of
              (Inr r, s2) \<Rightarrow> (Inr r, s2)
            | (Inl enhancedError, s2) \<Rightarrow> basic_attempt e t' (cacheKey ms) mdl ms s2))"
  using assms by (simp add: claude_try_def split_beta cong: sum.case_cong)

lemma claude_hit:
  assumes v: "validate body = Next (ms, mdl, um)"
    and c: "cache s (cacheKey ms) = Some (p, ex)" and p: "truthy p" and t: "ex = 0 \<or> t \<le> ex"
  shows "claude_handler e t t' body s = (Response 200 p, s\<lparr>hits := hits s + 1\<rparr>)"
  using p by (simp add: claude_handler_def claude_try_valid [OF v] cache_get_hit [OF c t])

lemma claude_miss:
  assumes v: "validate body = Next (ms, mdl, um)"
    and miss: "\<not> truthy (fst (cache_get t (cacheKey ms) s))"
  shows "\<exists>new. set new \<subseteq> {enhanced_request mdl um, basic_request mdl ms} \<and> length new \<le> 2
      \<and> (api_key_configured e \<or> new = [])
      \<and> ((\<exists>ps. claude_handler e t t' body s =
              (Response 200 (Obj ps),
               cache_set t' (cacheKey ms) (Obj ps)
                 ((snd (cache_get t (cacheKey ms) s))\<lparr>calls := calls s @ new\<rparr>)))
         \<or> (\<exists>err. claude_handler e t t' body s =
              (error_response err, (snd (cache_get t (cacheKey ms) s))\<lparr>calls := calls s @ new\<rparr>)))"
proof -
  define s0 where "s0 = snd (cache_get t (cacheKey ms) s)"
  have c0: "calls s0 = calls s" by (simp add: s0_def)
  have body_eq: "claude_try e t t' body s =
     (if \<not> api_key_configured e
      then generateFallbackResponse (content_of um) t' (cacheKey ms) s0
      else (case enhanced_attempt e t' (cacheKey ms) mdl um s0 of
              (Inr r, s2) \<Rightarrow> (Inr r, s2)
            | (Inl enhancedError, s2) \<Rightarrow> basic_attempt e t' (cacheKey ms) mdl ms s2))"
    using miss by (simp add: claude_try_valid [OF v] s0_def)
  have id: "s0\<lparr>calls := calls s @ []\<rparr> = s0" using c0 by simp
  show ?thesis
  proof (cases "api_key_configured e")
    case False
    from fallback_cases [of "content_of um" t' "cacheKey ms" s0]
    show ?thesis
    proof
      assume "generateFallbackResponse (content_of um) t' (cacheKey ms) s0 = (Inl TypeError, s0)
          \<and> (\<forall>q. content_of um \<noteq> Str q)"
      then have "claude_handler e t t' body s = (error_response TypeError, s0\<lparr>calls := calls s @ []\<rparr>)"
        using False body_eq id by (simp add: claude_handler_def)
      then show ?thesis
        using False unfolding s0_def by (intro exI [of _ "[]"]) auto
    next
      assume "\<exists>c. generateFallbackResponse (content_of um) t' (cacheKey ms) s0 =
        (Inr (Response 200 (Obj [(ascii ''content'', Str c), (ascii ''fallback'', Bool True),
                                 (ascii ''enhanced'', Bool False)])),
         cache_set t' (cacheKey ms) (Obj [(ascii ''content'', Str c), (ascii ''fallback'', Bool True),
                             (ascii ''enhanced'', Bool False)]) s0)"
      then obtain ps where "generateFallbackResponse (content_of um) t' (cacheKey ms) s0 =
        (Inr (Response 200 (Obj ps)), cache_set t' (cacheKey ms) (Obj ps) s0)"
        by blast
      then have "claude_handler e t t' body s =
          (Response 200 (Obj ps), cache_set t' (cacheKey ms) (Obj ps) (s0\<lparr>calls := calls s @ []\<rparr>))"
        using False body_eq id by (simp add: claude_handler_def)
      then show ?thesis
        using False unfolding s0_def by (intro exI [of _ "[]"]) auto
    qed
  next
    case True
    from enhanced_attempt_cases [of e t' "cacheKey ms" mdl um s0]
    show ?thesis
    proof
      assume "\<exists>ps. enhanced_attempt e t' (cacheKey ms) mdl um s0
       = (Inr (Response 200 (Obj ps)),
          cache_set t' (cacheKey ms) (Obj ps) (s0\<lparr>calls := calls s0 @ [enhanced_request mdl um]\<rparr>))"
      then obtain ps where "enhanced_attempt e t' (cacheKey ms) mdl um s0
       = (Inr (Response 200 (Obj ps)),
          cache_set t' (cacheKey ms) (Obj ps) (s0\<lparr>calls := calls s0 @ [enhanced_request mdl um]\<rparr>))"
        by blast
      then have "claude_handler e t t' body s =
          (Response 200 (Obj ps),
           cache_set t' (cacheKey ms) (Obj ps) (s0\<lparr>calls := calls s @ [enhanced_request mdl um]\<rparr>))"
        using True body_eq c0 by (simp add: claude_handler_def)
      then show ?thesis
        using True unfolding s0_def by (intro exI [of _ "[enhanced_request mdl um]"]) auto
    next
      assume "\<exists>err. enhanced_attempt e t' (cacheKey ms) mdl um s0
       = (Inl err, s0\<lparr>calls := calls s0 @ [enhanced_request mdl um]\<rparr>)"
      then obtain err1 where e1: "enhanced_attempt e t' (cacheKey ms) mdl um s0
       = (Inl err1, s0\<lparr>calls := calls s0 @ [enhanced_request mdl um]\<rparr>)"
        by blast
      define s1 where "s1 = s0\<lparr>calls := calls s0 @ [enhanced_request mdl um]\<rparr>"
      have s1: "s1\<lparr>calls := calls s1 @ [basic_request mdl ms]\<rparr>
          = s0\<lparr>calls := calls s @ [enhanced_request mdl um, basic_request mdl ms]\<rparr>"
        using c0 by (simp add: s1_def)
      have body_eq2: "claude_try e t t' body s = basic_attempt e t' (cacheKey ms) mdl ms s1"
        using True body_eq e1 by (simp add: s1_def)
      from basic_attempt_cases [of e t' "cacheKey ms" mdl ms s1]
      show ?thesis
      proof
        assume "\<exists>err. basic_attempt e t' (cacheKey ms) mdl ms s1
            = (Inl err, s1\<lparr>calls := calls s1 @ [basic_request mdl ms]\<rparr>)"
        then obtain err2 where "basic_attempt e t' (cacheKey ms) mdl ms s1
            = (Inl err2, s1\<lparr>calls := calls s1 @ [basic_request mdl ms]\<rparr>)"
          by blast
        then have "claude_handler e t t' body s =
            (error_response err2,
             s0\<lparr>calls := calls s @ [enhanced_request mdl um, basic_request mdl ms]\<rparr>)"
          using body_eq2 s1 by (simp add: claude_handler_def)
        then show ?thesis
          using True unfolding s0_def
          by (intro exI [of _ "[enhanced_request mdl um, basic_request mdl ms]"]) auto
      next
        assume "\<exists>ps. basic_attempt e t' (cacheKey ms) mdl ms s1
            = (Inr (Response 200 (Obj ps)),
               cache_set t' (cacheKey ms) (Obj ps) (s1\<lparr>calls := calls s1 @ [basic_request mdl ms]\<rparr>))"
        then obtain ps where "basic_attempt e t' (cacheKey ms) mdl ms s1
            = (Inr (Response 200 (Obj ps)),
               cache_set t' (cacheKey ms) (Obj ps) (s1\<lparr>calls := calls s1 @ [basic_request mdl ms]\<rparr>))"
          by blast
        then have "claude_handler e t t' body s =
            (Response 200 (Obj ps),
             cache_set t' (cacheKey ms) (Obj ps)
               (s0\<lparr>calls := calls s @ [enhanced_request mdl um, basic_request mdl ms]\<rparr>))"
          using body_eq2 s1 by (simp add: claude_handler_def)
        then show ?thesis
          using True unfolding s0_def
          by (intro exI [of _ "[enhanced_request mdl um, basic_request mdl ms]"]) auto
      qed
    qed
  qed
qed

lemma stored_then_hit:
  assumes v1: "validate body1 = Next (ms, mdl1, um1)"
    and v2: "validate body2 = Next (ms, mdl2, um2)"
    and miss: "\<not> truthy (fst (cache_get t1 (cacheKey ms) s))"
    and first: "claude_handler e t1 t1' body1 s = (Response 200 payload, s1)"
    and t2: "t2 \<le> t1' + stdTTL * 1000"
  shows "claude_handler e t2 t2' body2 s1 = (Response 200 payload, s1\<lparr>hits := hits s1 + 1\<rparr>)
    \<and> length (calls s1) \<le> length (calls s) + 2"
proof -
  from claude_miss [OF v1 miss, of e t1']
  obtain new where len: "length new \<le> 2"
    and cases: "(\<exists>ps. claude_handler e t1 t1' body1 s =
              (Response 200 (Obj ps),
               cache_set t1' (cacheKey ms) (Obj ps)
                 ((snd (cache_get t1 (cacheKey ms) s))\<lparr>calls := calls s @ new\<rparr>)))
         \<or> (\<exists>err. claude_handler e t1 t1' body1 s =
              (error_response err, (snd (cache_get t1 (cacheKey ms) s))\<lparr>calls := calls s @ new\<rparr>))"
    by blast
  from cases first obtain ps where p: "payload = Obj ps"
    and s1: "s1 = cache_set t1' (cacheKey ms) (Obj ps)
                 ((snd (cache_get t1 (cacheKey ms) s))\<lparr>calls := calls s @ new\<rparr>)"
    by auto
  have c: "cache s1 (cacheKey ms) = Some (payload, t1' + stdTTL * 1000)"
    by (simp add: s1 p cache_cache_set)
  have "claude_handler e t2 t2' body2 s1 = (Response 200 payload, s1\<lparr>hits := hits s1 + 1\<rparr>)"
    using t2 by (intro claude_hit [OF v2 c]) (simp_all add: p)
  moreover have "length (calls s1) \<le> length (calls s) + 2"
    using len by (simp add: s1)
  ultimately show ?thesis by simp
qed

lemma request_model [simp]:
  "get_prop (enhanced_request mdl um) (ascii ''model'') = Next mdl"
  "get_prop (basic_request mdl ms) (ascii ''model'') = Next mdl"
  by (simp_all add: enhanced_request_def basic_request_def)

lemma claude_calls:
  assumes v: "validate body = Next (ms, mdl, um)"
  shows "\<exists>new. calls (snd (claude_handler e t t' body s)) = calls s @ new
    \<and> set new \<subseteq> {enhanced_request mdl um, basic_request mdl ms}
    \<and> length new \<le> 2 \<and> (api_key_configured e \<or> new = [])"
proof (cases "truthy (fst (cache_get t (cacheKey ms) s))")
  case True
  then have "calls (snd (claude_handler e t t' body s)) = calls s @ []"
    by (simp add: claude_handler_def claude_try_valid [OF v])
  then show ?thesis by (intro exI [of _ "[]"]) simp
next
  case False
  from claude_miss [OF v False, of e t']
  obtain new where new: "set new \<subseteq> {enhanced_request mdl um, basic_request mdl ms}"
      "length new \<le> 2" "api_key_configured e \<or> new = []"
    and cases: "(\<exists>ps. claude_handler e t t' body s =
              (Response 200 (Obj ps),
               cache_set t' (cacheKey ms) (Obj ps)
                 ((snd (cache_get t (cacheKey ms) s))\<lparr>calls := calls s @ new\<rparr>)))
         \<or> (\<exists>err. claude_handler e t t' body s =
              (error_response err, (snd (cache_get t (cacheKey ms) s))\<lparr>calls := calls s @ new\<rparr>))"
    by blast
  from cases have "calls (snd (claude_handler e t t' body s)) = calls s @ new"
    by auto
  with new show ?thesis by blast
qed

section \<open>Properties of the string search and of the serialisation\<close>

lemma includes_str_iff: "includes_str s k \<longleftrightarrow> (\<exists>ps ss. s = ps @ k @ ss)"
proof -
  have "includes_str s k \<longleftrightarrow> sublist k s"
    by (induction s) (auto simp: sublist_Cons_right)
  then show ?thesis by (simp add: sublist_def)
qed

lemma includes_str_self [simp]: "includes_str k k"
  unfolding includes_str_iff by (intro exI [of _ "[]"]) simp

lemma includes_str_right: "includes_str xs k \<Longrightarrow> includes_str (xs @ ys) k"
proof -
  assume "includes_str xs k"
  then obtain ps ss where "xs = ps @ k @ ss" by (auto simp: includes_str_iff)
  then have "xs @ ys = ps @ k @ (ss @ ys)" by simp
  then show ?thesis unfolding includes_str_iff by blast
qed

lemma includes_str_left: "includes_str ys k \<Longrightarrow> includes_str (xs @ ys) k"
proof -
  assume "includes_str ys k"
  then obtain ps ss where "ys = ps @ k @ ss" by (auto simp: includes_str_iff)
  then have "xs @ ys = (xs @ ps) @ k @ ss" by simp
  then show ?thesis unfolding includes_str_iff by blast
qed

lemma toLowerCase_keeps:
  assumes "map lower_unit k = k" and "includes_str s k"
  shows "includes_str (toLowerCase s) k"
proof -
  from assms(2) obtain ps ss where "s = ps @ k @ ss" by (auto simp: includes_str_iff)
  then have "toLowerCase s = map lower_unit ps @ k @ map lower_unit ss"
    using assms(1) by (simp add: toLowerCase_def)
  then show ?thesis unfolding includes_str_iff by blast
qed

lemma includes_str_Nil [simp]: "includes_str s []"
  by (cases s) simp_all

lemma join_first: "includes_str x k \<Longrightarrow> includes_str (join sep (x # xs)) k"
  by (cases xs) (auto intro: includes_str_right)

lemma join_later:
  assumes "includes_str (join sep xs) k"
  shows "includes_str (join sep (x # xs)) k"
proof (cases xs)
  case Nil
  with assms show ?thesis by simp
next
  case (Cons y ys)
  have "includes_str (x @ sep @ join sep xs) k"
    using assms by (intro includes_str_left)
  then show ?thesis using Cons by simp
qed

lemma brackets_includes:
  "includes_str x k \<Longrightarrow> includes_str (l @ x @ r) k"
  by (rule includes_str_left, rule includes_str_right)

lemma stringify_Obj_includes:
  "includes_str (join (ascii '','') (stringify_properties ps)) k \<Longrightarrow>
   includes_str (JSON_stringify (Obj ps)) k"
  by (simp add: brackets_includes)

lemma stringify_property_first:
  assumes "v \<noteq> Undefined" and "includes_str (JSON_stringify v) k"
  shows "includes_str (join (ascii '','') (stringify_properties ((key, v) # ps))) k"
proof -
  have "includes_str (JSON_quote key @ ascii '':'' @ JSON_stringify v) k"
    using assms(2) by (intro includes_str_left)
  then show ?thesis
    using assms(1) by (simp add: join_first)
qed

lemma stringify_property_later:
  "includes_str (join (ascii '','') (stringify_properties ps)) k \<Longrightarrow>
   includes_str (join (ascii '','') (stringify_properties (p # ps))) k"
  by (cases p) (simp add: join_later)

lemma stringify_Arr_first:
  "includes_str (JSON_stringify x) k \<Longrightarrow> includes_str (JSON_stringify (Arr (x # xs))) k"
  by (simp add: brackets_includes join_first)

lemma stringify_Str_includes:
  "includes_str (quote_units s) k \<Longrightarrow> includes_str (JSON_stringify (Str s)) k"
  unfolding JSON_stringify.simps JSON_quote_def by (rule brackets_includes)

lemma food_content_has_code:
  "includes_str
     (JSON_stringify
        (Obj ((ascii ''response'', r) #
              (ascii ''codes'', Arr (Obj ((ascii ''code'', Str (ascii ''56100'')) # fs) # others)) #
              rest)))
     (ascii ''56100'')"
proof -
  have "quote_units (ascii ''56100'') = ascii ''56100''"
    by (simp add: ascii_def)
  then have "includes_str (JSON_stringify (Str (ascii ''56100''))) (ascii ''56100'')"
    by (intro stringify_Str_includes) simp
  then have "includes_str
      (JSON_stringify (Obj ((ascii ''code'', Str (ascii ''56100'')) # fs))) (ascii ''56100'')"
    by (intro stringify_Obj_includes stringify_property_first) simp_all
  then have "includes_str
      (JSON_stringify (Arr (Obj ((ascii ''code'', Str (ascii ''56100'')) # fs) # others)))
      (ascii ''56100'')"
    by (rule stringify_Arr_first)
  then show ?thesis
    by (intro stringify_Obj_includes stringify_property_later stringify_property_first) simp_all
qed

lemma lower_kw_restoran: "map lower_unit kw_restoran = kw_restoran"
  by (simp add: kw_restoran_def lower_unit_def)

section \<open>The example requests evaluated\<close>

lemma validate_hello:
  "m \<in> set allowedModels \<Longrightarrow>
   validate (Obj [(ascii ''messages'', Arr hello_messages), (ascii ''model'', m)])
     = Next (hello_messages, m, chat_message ''user'' (ascii ''hello''))"
  by (auto simp: hello_messages_def chat_message_def validate_def
      validate_shape_def check_message_def isArray_def elements_def allowedModels_def ascii_def)

lemma validate_haiku:
  "validate haiku_body = Next (hello_messages,
      Str (ascii ''claude-3-haiku-20240307''), chat_message ''user'' (ascii ''hello''))"
  unfolding haiku_body_def chat_body_with_model_def
  by (rule validate_hello) (simp add: allowedModels_def)

lemma validate_opus:
  "validate opus_body = Next (hello_messages,
      Str (ascii ''claude-3-opus-20240229''), chat_message ''user'' (ascii ''hello''))"
  unfolding opus_body_def chat_body_with_model_def
  by (rule validate_hello) (simp add: allowedModels_def)

lemma miss_init: "\<not> truthy (fst (cache_get t k init_state))"
  by (simp add: cache_get_def init_state_def)

lemma steady_haiku:
  "fst (claude_handler steady_env 1000 2000 haiku_body init_state) = Response 200 hello_result"
  by (simp add: claude_handler_def claude_try_valid [OF validate_haiku] init_state_def
      cache_get_def api_key_configured_def steady_env_def enhanced_attempt_def create_def
      provider_message_def text_and_usage_def content_of_def chat_message_def Let_def
      hello_result_def ascii_def)

lemma validate_hello_default:
  "validate (chat_body hello_messages)
     = Next (hello_messages, Str default_model, chat_message ''user'' (ascii ''hello''))"
  by (auto simp: chat_body_def hello_messages_def chat_message_def validate_def
      validate_shape_def check_message_def isArray_def elements_def allowedModels_def
      default_model_def ascii_def)

lemma flaky_first:
  "claude_handler flaky_env 1000 2000 (chat_body hello_messages) init_state
     = (Response 200 hello_retry_result,
        \<lparr>cache = [cacheKey hello_messages \<mapsto> (hello_retry_result, 3602000)],
         hits = 0, misses = 1,
         calls = [enhanced_request (Str default_model) (chat_message ''user'' (ascii ''hello'')),
                  basic_request (Str default_model) hello_messages]\<rparr>)"
  by (simp add: claude_handler_def claude_try_valid [OF validate_hello_default] init_state_def
      cache_get_def cache_set_def stdTTL_def api_key_configured_def flaky_env_def
      enhanced_attempt_def basic_attempt_def create_def
      provider_message_def text_and_usage_def Let_def hello_retry_result_def ascii_def)

lemma validate_restoran:
  "validate (chat_body restoran_messages)
     = Next (restoran_messages, Str default_model,
             chat_message ''user'' (kw_restoran @ ascii '' Almaty''))"
  by (auto simp: chat_body_def restoran_messages_def chat_message_def validate_def
      validate_shape_def check_message_def isArray_def elements_def allowedModels_def
      default_model_def kw_restoran_def ascii_def)

section \<open>The cache of a running server\<close>

lemma cache_get_sub:
  "cache (snd (cache_get t k s)) k' = Some x \<Longrightarrow> cache s k' = Some x"
  by (auto simp: cache_get_def split: option.splits prod.splits if_splits)

lemma cache_inv_init: "cache_inv init_state"
  by (simp add: cache_inv_def init_state_def)

lemma cache_inv_get: "cache_inv s \<Longrightarrow> cache_inv (snd (cache_get t k s))"
  unfolding cache_inv_def by (blast dest: cache_get_sub)

lemma cache_inv_calls: "cache_inv s \<Longrightarrow> cache_inv (s\<lparr>calls := c\<rparr>)"
  by (simp add: cache_inv_def)

lemma cache_inv_set_claude:
  "cache_inv s \<Longrightarrow> cache_inv (cache_set t (cacheKey ms) v s)"
  by (auto simp: cache_inv_def cache_cache_set cacheKey_def)

lemma cache_inv_set_sections:
  "cache_inv s \<Longrightarrow> cache_inv (cache_set t (ascii ''oked_sections'') sections_result s)"
  by (auto simp: cache_inv_def cache_cache_set)

lemma cache_inv_claude:
  assumes "cache_inv s"
  shows "cache_inv (snd (claude_handler e t t' body s))"
proof (cases "validate body")
  case (Throw err)
  then show ?thesis using assms by (simp add: claude_handler_Throw)
next
  case (Return r)
  then show ?thesis using assms by (simp add: claude_handler_Return)
next
  case (Next p)
  obtain ms mdl um where v: "validate body = Next (ms, mdl, um)"
    using Next by (cases p) auto
  show ?thesis
  proof (cases "truthy (fst (cache_get t (cacheKey ms) s))")
    case True
    then show ?thesis
      using assms by (simp add: claude_handler_def claude_try_valid [OF v] cache_inv_get)
  next
    case False
    from claude_miss [OF v False, of e t']
    obtain new where "(\<exists>ps. claude_handler e t t' body s =
              (Response 200 (Obj ps),
               cache_set t' (cacheKey ms) (Obj ps)
                 ((snd (cache_get t (cacheKey ms) s))\<lparr>calls := calls s @ new\<rparr>)))
         \<or> (\<exists>err. claude_handler e t t' body s =
              (error_response err, (snd (cache_get t (cacheKey ms) s))\<lparr>calls := calls s @ new\<rparr>))"
      by blast
    then show ?thesis
      using assms by (auto intro!: cache_inv_set_claude cache_inv_calls cache_inv_get)
  qed
qed

lemma cache_inv_statistics:
  "cache_inv s \<Longrightarrow> cache_inv (snd (statistics_handler t okedCode s))"
  by (cases okedCode) (auto simp: statistics_handler_def split_beta cache_inv_get)

lemma cache_inv_sections:
  "cache_inv s \<Longrightarrow> cache_inv (snd (sections_handler t t' s))"
  by (auto simp: sections_handler_def split_beta cache_inv_get cache_inv_set_sections)

lemma cache_inv_handle: "cache_inv s \<Longrightarrow> cache_inv (snd (handle e r s))"
  by (cases "(e, r, s)" rule: handle.cases)
     (simp_all add: cache_inv_claude cache_inv_statistics cache_inv_sections)

lemma cache_inv_run: "cache_inv s \<Longrightarrow> cache_inv (run e rs s)"
  by (induction rs arbitrary: s) (simp_all add: cache_inv_handle)

lemma no_statistics_entry:
  "cache_inv s \<Longrightarrow> cache s (ascii ''stats_'' @ code) = None"
proof (rule ccontr)
  assume inv: "cache_inv s" and "cache s (ascii ''stats_'' @ code) \<noteq> None"
  then obtain v ex where "cache s (ascii ''stats_'' @ code) = Some (v, ex)" by auto
  with inv have "ascii ''stats_'' @ code = ascii ''oked_sections''
      \<or> prefix (ascii ''enhanced_claude_'') (ascii ''stats_'' @ code)"
    unfolding cache_inv_def by blast
  then show False by (auto simp: ascii_def)
qed

lemma sections_entry:
  "cache_inv s \<Longrightarrow> cache s (ascii ''oked_sections'') = None
     \<or> (\<exists>ex. cache s (ascii ''oked_sections'') = Some (sections_result, ex))"
proof (cases "cache s (ascii ''oked_sections'')")
  case None
  then show ?thesis by simp
next
  case (Some p)
  assume inv: "cache_inv s"
  obtain v ex where p: "p = (v, ex)" by (cases p)
  have "\<not> prefix (ascii ''enhanced_claude_'') (ascii ''oked_sections'')"
    by (simp add: ascii_def)
  with inv Some p have "v = sections_result"
    unfolding cache_inv_def by blast
  with Some p show ?thesis by simp
qed

section \<open>The claims about the validation\<close>

text \<open>
  C2 (the code departs from it). The claim: for every request body the validator checks, in
  order, that the messages are a sequence of 1 to 50 entries, that every message has a
  non-empty role and content, a role among user, assistant and system, and a string
  content of at most 10,000 units, and that the model is allowed; the first failing check
  answers 400 with its own message and has no side effect. The early returns of the
  validation are such answers (\<open>validate_Return\<close>, \<open>claude_handler_Return\<close>), and the
  validation throws only on \<^verbatim>\<open>null\<close> (\<open>validate_Throw\<close>). But a message that is \<^verbatim>\<open>null\<close> fails
  the check of role and content, reading \<^verbatim>\<open>message.role\<close> throws, and the outer \<^verbatim>\<open>catch\<close>
  answers 500; a message that is a number, which has no role either, is answered 400.
\<close>

theorem null_message_is_internal_error:
  "claude_handler e t_get t_set (chat_body [Null]) s
     = (Response 500 (error_body ''Internal server error''), s)
   \<and> claude_handler e t_get t_set (chat_body [Num (ascii ''5'')]) s
     = (Response 400 (error_body ''Invalid message format: role and content required''), s)"
proof -
  have "validate (chat_body [Null]) = Throw TypeError"
    by (simp add: validate_def validate_shape_def check_message_def isArray_def elements_def
        chat_body_def ascii_def)
  moreover have "validate (chat_body [Num (ascii ''5'')])
      = Return (Response 400 (error_body ''Invalid message format: role and content required''))"
    by (simp add: validate_def validate_shape_def check_message_def isArray_def elements_def
        chat_body_def ascii_def)
  ultimately show ?thesis
    by (simp add: claude_handler_Return claude_handler_Throw error_response_def)
qed

text \<open>
  C6. A request whose messages are at most 50, where every message before \<open>message\<close> passes
  the checks, and \<open>message\<close> has a valid role and a string content of 10,001 units, is
  answered 400 \<^verbatim>\<open>Message content too long\<close>, and the state of the process is unchanged.
\<close>

theorem content_too_long:
  assumes "get_prop body (ascii ''messages'') = Next (Arr (pre @ message # post))"
    and "length (pre @ message # post) \<le> 50"
    and "check_messages pre = Next ()"
    and "get_prop message (ascii ''role'') = Next role"
    and "role \<in> set [Str (ascii ''user''), Str (ascii ''assistant''), Str (ascii ''system'')]"
    and "get_prop message (ascii ''content'') = Next (Str c)"
    and "length c = 10001"
  shows "claude_handler e t_get t_set body s
           = (Response 400 (error_body ''Message content too long''), s)"
proof -
  obtain ps where body: "body = Obj ps"
    using assms(1) get_prop_Arr_Obj by blast
  have "truthy role" using assms(5) by (auto simp: ascii_def)
  moreover have "c \<noteq> []" using assms(7) by auto
  ultimately have "check_message message
      = Return (Response 400 (error_body ''Message content too long''))"
    using assms(4-7) by (simp add: check_message_def)
  then have "check_messages (pre @ message # post)
      = Return (Response 400 (error_body ''Message content too long''))"
    using assms(3) by (simp add: check_messages_append)
  then have "validate_shape body = Return (Response 400 (error_body ''Message content too long''))"
    using assms(1,2) body
    by (simp add: validate_shape_def isArray_def elements_def Let_def)
  then have "validate body = Return (Response 400 (error_body ''Message content too long''))"
    by (simp add: validate_def)
  then show ?thesis by (rule claude_handler_Return)
qed

theorem content_too_long_witness:
  "claude_handler steady_env 0 0
     (chat_body [chat_message ''user'' (ascii ''hello''),
                 chat_message ''assistant'' (replicate 10001 0x61),
                 Null]) init_state
   = (Response 400 (error_body ''Message content too long''), init_state)"
proof -
  have "check_messages [chat_message ''user'' (ascii ''hello'')] = Next ()"
    by (simp add: check_message_def chat_message_def ascii_def)
  then show ?thesis
    using content_too_long [of
        "chat_body [chat_message ''user'' (ascii ''hello''),
                    chat_message ''assistant'' (replicate 10001 0x61), Null]"
        "[chat_message ''user'' (ascii ''hello'')]"
        "chat_message ''assistant'' (replicate 10001 0x61)"
        "[Null]" "Str (ascii ''assistant'')" "replicate 10001 0x61"
        steady_env 0 0 init_state]
    by (simp add: chat_body_def chat_message_def ascii_def)
qed

text \<open>
  C9. A request that passes the checks of the messages and of the model, and in which no
  message has the role user, is answered 400 \<^verbatim>\<open>No user message found\<close>; the state of the
  process is unchanged: no cache lookup is counted, nothing is stored, the provider is not
  called.
\<close>

theorem no_user_message:
  assumes "validate_shape body = Next (ms, mdl)"
    and "list_all (\<lambda>m. get_prop m (ascii ''role'') \<noteq> Next (Str (ascii ''user''))) ms"
  shows "claude_handler e t_get t_set body s
           = (Response 400 (error_body ''No user message found''), s)"
proof -
  have "check_messages ms = Next ()"
    using assms(1) by (auto simp: validate_shape_Next)
  then have "find_user ms = Next Undefined"
    using assms(2) by (rule find_user_none)
  then have "validate body = Return (Response 400 (error_body ''No user message found''))"
    using assms(1) by (simp add: validate_def)
  then show ?thesis by (rule claude_handler_Return)
qed

theorem no_user_message_witness:
  "validate_shape (chat_body [chat_message ''system'' (ascii ''be brief''),
                              chat_message ''assistant'' (ascii ''hello'')])
     = Next ([chat_message ''system'' (ascii ''be brief''),
              chat_message ''assistant'' (ascii ''hello'')], Str default_model)
   \<and> claude_handler steady_env 0 0
        (chat_body [chat_message ''system'' (ascii ''be brief''),
                    chat_message ''assistant'' (ascii ''hello'')]) init_state
     = (Response 400 (error_body ''No user message found''), init_state)"
proof -
  have v: "validate_shape (chat_body [chat_message ''system'' (ascii ''be brief''),
                              chat_message ''assistant'' (ascii ''hello'')])
     = Next ([chat_message ''system'' (ascii ''be brief''),
              chat_message ''assistant'' (ascii ''hello'')], Str default_model)"
    by (simp add: validate_shape_def check_message_def isArray_def elements_def
        chat_body_def chat_message_def allowedModels_def default_model_def ascii_def)
  show ?thesis
    using v no_user_message [OF v, of steady_env 0 0 init_state]
    by (simp add: chat_message_def ascii_def)
qed

text \<open>
  C10. When the body has no model, the model is \<open>default_model\<close>, which is in the allow-list;
  so a request whose messages pass the checks and that has a user message passes the
  validation with that model, and every call of the provider that the handler makes carries
  that model.
\<close>

theorem absent_model_defaults:
  assumes "get_prop body (ascii ''model'') = Next Undefined"
    and "get_prop body (ascii ''messages'') = Next (Arr ms)"
    and "ms \<noteq> []" and "length ms \<le> 50"
    and "check_messages ms = Next ()"
    and "find_user ms = Next um" and "truthy um"
  shows "Str default_model \<in> set allowedModels
    \<and> validate body = Next (ms, Str default_model, um)
    \<and> (\<exists>new. calls (snd (claude_handler e t t' body s)) = calls s @ new
          \<and> list_all (\<lambda>request. get_prop request (ascii ''model'') = Next (Str default_model)) new)"
proof -
  have allowed: "Str default_model \<in> set allowedModels"
    by (simp add: allowedModels_def default_model_def)
  have "validate_shape body = Next (ms, Str default_model)"
    using assms(1-5) allowed by (simp add: validate_shape_Next)
  then have v: "validate body = Next (ms, Str default_model, um)"
    using assms(6,7) by (simp add: validate_Next)
  from claude_calls [OF v, of e t t' s]
  obtain new where "calls (snd (claude_handler e t t' body s)) = calls s @ new"
    and "set new \<subseteq> {enhanced_request (Str default_model) um, basic_request (Str default_model) ms}"
    by blast
  moreover from this(2)
  have "list_all (\<lambda>request. get_prop request (ascii ''model'') = Next (Str default_model)) new"
    by (auto simp: list_all_iff)
  ultimately show ?thesis using allowed v by blast
qed

theorem absent_model_defaults_witness:
  "validate (chat_body hello_messages)
     = Next (hello_messages, Str default_model, chat_message ''user'' (ascii ''hello''))
   \<and> calls (snd (claude_handler steady_env 1000 2000 (chat_body hello_messages) init_state))
     = [enhanced_request (Str default_model) (chat_message ''user'' (ascii ''hello''))]
   \<and> (\<exists>new. calls (snd (claude_handler steady_env 1000 2000 (chat_body hello_messages) init_state))
          = calls init_state @ new
        \<and> list_all (\<lambda>request. get_prop request (ascii ''model'') = Next (Str default_model)) new)"
proof -
  have a: "get_prop (chat_body hello_messages) (ascii ''model'') = Next Undefined"
    and b: "get_prop (chat_body hello_messages) (ascii ''messages'') = Next (Arr hello_messages)"
    by (simp_all add: chat_body_def ascii_def)
  have c: "hello_messages \<noteq> []" and d: "length hello_messages \<le> 50"
    by (simp_all add: hello_messages_def)
  have e: "check_messages hello_messages = Next ()"
    by (simp add: hello_messages_def chat_message_def check_message_def ascii_def)
  have f: "find_user hello_messages = Next (chat_message ''user'' (ascii ''hello''))"
    by (simp add: hello_messages_def chat_message_def ascii_def)
  have g: "truthy (chat_message ''user'' (ascii ''hello''))"
    by (simp add: chat_message_def)
  have "calls (snd (claude_handler steady_env 1000 2000 (chat_body hello_messages) init_state))
     = [enhanced_request (Str default_model) (chat_message ''user'' (ascii ''hello''))]"
    by (simp add: claude_handler_def claude_try_valid [OF validate_hello_default] init_state_def
      cache_get_def cache_set_def api_key_configured_def steady_env_def
      enhanced_attempt_def create_def
      provider_message_def text_and_usage_def Let_def ascii_def)
  with absent_model_defaults [OF a b c d e f g, of steady_env 1000 2000 init_state]
  show ?thesis by simp
qed


section \<open>The claims about the cache\<close>

text \<open>
  C1. The cache key is made from the serialised messages alone (\<open>cacheKey\<close> has no other
  argument), not from the model. So for two valid requests with the same messages and
  different allowed models: when the first is answered 200 and not from the cache, so that
  it stores an entry, and the second reads the cache within the TTL of that entry (not
  later than 3600 seconds after the entry was stored), the second is answered 200 with the
  stored payload; it is counted as a cache hit and changes nothing else, so the provider is
  not called.
\<close>

theorem cache_key_ignores_model:
  assumes "validate body1 = Next (ms, mdl1, um1)"
    and "validate body2 = Next (ms, mdl2, um2)"
    and "mdl1 \<noteq> mdl2"
    and "\<not> truthy (fst (cache_get t1 (cacheKey ms) s))"
    and "claude_handler e t1 t1' body1 s = (Response 200 payload, s1)"
    and "t2 \<le> t1' + stdTTL * 1000"
  shows "claude_handler e t2 t2' body2 s1 = (Response 200 payload, s1\<lparr>hits := hits s1 + 1\<rparr>)"
  using stored_then_hit [OF assms(1,2,4,5,6)] by simp

theorem cache_key_ignores_model_witness:
  "Str (ascii ''claude-3-haiku-20240307'') \<noteq> Str (ascii ''claude-3-opus-20240229'')
   \<and> fst (claude_handler steady_env 1000 2000 haiku_body init_state) = Response 200 hello_result
   \<and> claude_handler steady_env 3602000 3602500 opus_body
        (snd (claude_handler steady_env 1000 2000 haiku_body init_state))
      = (Response 200 hello_result,
         (snd (claude_handler steady_env 1000 2000 haiku_body init_state))
           \<lparr>hits := hits (snd (claude_handler steady_env 1000 2000 haiku_body init_state)) + 1\<rparr>)"
proof -
  have ne: "Str (ascii ''claude-3-haiku-20240307'') \<noteq> Str (ascii ''claude-3-opus-20240229'')"
    by (simp add: ascii_def)
  have first: "claude_handler steady_env 1000 2000 haiku_body init_state
      = (Response 200 hello_result, snd (claude_handler steady_env 1000 2000 haiku_body init_state))"
    using steady_haiku by (simp add: prod_eq_iff)
  have "(3602000::nat) \<le> 2000 + stdTTL * 1000"
    by (simp add: stdTTL_def)
  from cache_key_ignores_model [OF validate_haiku validate_opus ne miss_init first this]
  show ?thesis using ne steady_haiku by simp
qed


text \<open>
  C3 (as stated, it fails). The claim: the identical valid request issued twice within the
  TTL window is answered the second time with the identical cached payload, and the
  provider is invoked at most once across the two calls. With a provider that rejects the
  first call it gets, the first request makes the enhanced call and then the retry with the
  raw messages: both requests are answered with the same payload, and the provider has been
  invoked twice.
\<close>

theorem retry_calls_provider_twice:
  "fst (claude_handler flaky_env 1000 2000 (chat_body hello_messages) init_state)
     = Response 200 hello_retry_result
   \<and> fst (claude_handler flaky_env 3000 4000 (chat_body hello_messages)
        (snd (claude_handler flaky_env 1000 2000 (chat_body hello_messages) init_state)))
     = Response 200 hello_retry_result
   \<and> length (calls (snd (claude_handler flaky_env 3000 4000 (chat_body hello_messages)
        (snd (claude_handler flaky_env 1000 2000 (chat_body hello_messages) init_state))))) = 2"
proof -
  have "claude_handler flaky_env 3000 4000 (chat_body hello_messages)
        (snd (claude_handler flaky_env 1000 2000 (chat_body hello_messages) init_state))
     = (Response 200 hello_retry_result,
        (snd (claude_handler flaky_env 1000 2000 (chat_body hello_messages) init_state))
          \<lparr>hits := hits (snd (claude_handler flaky_env 1000 2000 (chat_body hello_messages)
             init_state)) + 1\<rparr>)"
    by (rule claude_hit [OF validate_hello_default, where ex = 3602000])
       (simp_all add: flaky_first hello_retry_result_def)
  then show ?thesis by (simp add: flaky_first)
qed

text \<open>
  C3 (amended). When a valid request is answered 200 and not from the cache, the identical
  request that reads the cache within the TTL of the stored entry is answered 200 with the
  identical payload and does not call the provider; across the two requests the provider is
  invoked at most twice (the enhanced call and its single retry, both in the first request).
\<close>

theorem identical_request_served_from_cache:
  assumes "validate body = Next (ms, mdl, um)"
    and "\<not> truthy (fst (cache_get t1 (cacheKey ms) s))"
    and "claude_handler e t1 t1' body s = (Response 200 payload, s1)"
    and "t2 \<le> t1' + stdTTL * 1000"
  shows "claude_handler e t2 t2' body s1 = (Response 200 payload, s1\<lparr>hits := hits s1 + 1\<rparr>)
    \<and> calls (snd (claude_handler e t2 t2' body s1)) = calls s1
    \<and> length (calls s1) \<le> length (calls s) + 2"
  using stored_then_hit [OF assms(1,1,2,3,4)] by simp

theorem identical_request_served_from_cache_witness:
  "claude_handler flaky_env 3602000 3602001 (chat_body hello_messages)
        (snd (claude_handler flaky_env 1000 2000 (chat_body hello_messages) init_state))
     = (Response 200 hello_retry_result,
        (snd (claude_handler flaky_env 1000 2000 (chat_body hello_messages) init_state))
          \<lparr>hits := 1\<rparr>)
   \<and> length (calls (snd (claude_handler flaky_env 1000 2000 (chat_body hello_messages)
        init_state))) = 2"
proof -
  have first: "claude_handler flaky_env 1000 2000 (chat_body hello_messages) init_state
      = (Response 200 hello_retry_result,
         snd (claude_handler flaky_env 1000 2000 (chat_body hello_messages) init_state))"
    by (simp add: flaky_first)
  have "(3602000::nat) \<le> 2000 + stdTTL * 1000"
    by (simp add: stdTTL_def)
  from identical_request_served_from_cache [OF validate_hello_default miss_init first this]
  show ?thesis by (simp add: flaky_first)
qed

section \<open>The claim about the failure of both provider calls\<close>

text \<open>
  C4. For a valid request that is not served from the cache, with the credential
  configured: when the enhanced call and the retry with the raw messages are both rejected,
  the answer is made from the error of the retry: 429 when its status is 429, 400 when its
  status is 400, and 500 otherwise, each with a JSON body that has the field \<^verbatim>\<open>error\<close>.
\<close>

theorem both_provider_calls_fail:
  assumes "validate body = Next (ms, mdl, um)"
    and "api_key_configured e"
    and "\<not> truthy (fst (cache_get t (cacheKey ms) s))"
    and "provider e (calls s) (enhanced_request mdl um) = Rejected err1"
    and "provider e (calls s @ [enhanced_request mdl um]) (basic_request mdl ms) = Rejected err2"
  shows "fst (claude_handler e t t' body s) =
     (if status err2 = Some 429
      then Response 429 (error_body ''Rate limit exceeded. Please try again later.'')
      else if status err2 = Some 400
      then Response 400 (error_body ''Invalid request format'')
      else Response 500 (error_body ''Internal server error''))"
  using assms(2-5)
  by (simp add: claude_handler_def claude_try_valid [OF assms(1)] enhanced_attempt_def
      basic_attempt_def create_def error_response_def)

theorem both_provider_calls_fail_witness:
  "api_key_configured limited_env
   \<and> fst (claude_handler limited_env 1000 2000 (chat_body hello_messages) init_state)
     = Response 429 (error_body ''Rate limit exceeded. Please try again later.'')"
proof -
  have k: "api_key_configured limited_env"
    by (simp add: api_key_configured_def limited_env_def ascii_def)
  have "provider limited_env (calls init_state)
          (enhanced_request (Str default_model) (chat_message ''user'' (ascii ''hello'')))
        = Rejected (APIError (Some 429))"
    and "provider limited_env
          (calls init_state @ [enhanced_request (Str default_model) (chat_message ''user'' (ascii ''hello''))])
          (basic_request (Str default_model) hello_messages)
        = Rejected (APIError (Some 429))"
    by (simp_all add: limited_env_def)
  from both_provider_calls_fail [OF validate_hello_default k miss_init this]
  show ?thesis using k by simp
qed


section \<open>The claim about the fallback generator\<close>

text \<open>
  C5. For a valid request while the credential is not configured, whose first message with
  the role user has a content that contains the keyword \<open>kw_restoran\<close>: the fallback
  generator, which runs when the request is not served from the cache, answers 200 with the
  fields \<^verbatim>\<open>content\<close>, \<^verbatim>\<open>fallback: true\<close> and \<^verbatim>\<open>enhanced: false\<close>, and the content contains the
  code 56100.
\<close>

theorem fallback_restaurant:
  assumes "validate body = Next (ms, mdl, um)"
    and "get_prop um (ascii ''content'') = Next (Str q)"
    and "includes_str q kw_restoran"
    and "\<not> api_key_configured e"
    and "\<not> truthy (fst (cache_get t (cacheKey ms) s))"
  shows "\<exists>c. fst (claude_handler e t t' body s)
           = Response 200 (Obj [(ascii ''content'', Str c), (ascii ''fallback'', Bool True),
                                (ascii ''enhanced'', Bool False)])
         \<and> includes_str c (ascii ''56100'')"
proof -
  define s0 where "s0 = snd (cache_get t (cacheKey ms) s)"
  define c where "c = JSON_stringify
     (Obj [(ascii ''response'', Str (po_zaprosu @ q @ food_response_tail)),
           (ascii ''codes'',
              Arr [Obj [(ascii ''code'', Str (ascii ''56100'')),
                        (ascii ''name'', Str food_name),
                        (ascii ''level'', Str podklass),
                        (ascii ''explanation'', Str food_explanation)]]),
           (ascii ''suggestions'', Arr [Str food_suggestion_1, Str food_suggestion_2]),
           (ascii ''confidence'', Str (ascii ''low'')),
           (ascii ''warnings'', Arr [Str warning_1, Str warning_2]),
           (ascii ''fallback'', Bool True)])"
  have low: "includes_str (toLowerCase q) kw_restoran"
    using lower_kw_restoran assms(3) by (rule toLowerCase_keeps)
  have "fst (generateFallbackResponse (Str q) t' (cacheKey ms) s0)
      = Inr (Response 200 (Obj [(ascii ''content'', Str c), (ascii ''fallback'', Bool True),
                                (ascii ''enhanced'', Bool False)]))"
    unfolding c_def generateFallbackResponse_def using low
    by (simp add: Let_def del: JSON_stringify.simps)
  moreover have "content_of um = Str q"
    using assms(2) by (simp add: content_of_def)
  ultimately have "fst (claude_handler e t t' body s)
      = Response 200 (Obj [(ascii ''content'', Str c), (ascii ''fallback'', Bool True),
                           (ascii ''enhanced'', Bool False)])"
    using assms(4,5)
    by (simp add: claude_handler_def claude_try_valid [OF assms(1)] s0_def split_beta
        split: sum.splits)
  moreover have "includes_str c (ascii ''56100'')"
    unfolding c_def by (rule food_content_has_code)
  ultimately show ?thesis by blast
qed

theorem fallback_restaurant_witness:
  "includes_str (kw_restoran @ ascii '' Almaty'') kw_restoran
   \<and> \<not> api_key_configured offline_env
   \<and> (\<exists>c. fst (claude_handler offline_env 1000 2000 (chat_body restoran_messages) init_state)
           = Response 200 (Obj [(ascii ''content'', Str c), (ascii ''fallback'', Bool True),
                                (ascii ''enhanced'', Bool False)])
         \<and> includes_str c (ascii ''56100''))"
proof -
  have c: "get_prop (chat_message ''user'' (kw_restoran @ ascii '' Almaty'')) (ascii ''content'')
      = Next (Str (kw_restoran @ ascii '' Almaty''))"
    by (simp add: chat_message_def ascii_def)
  have i: "includes_str (kw_restoran @ ascii '' Almaty'') kw_restoran"
    by (rule includes_str_right) simp
  have k: "\<not> api_key_configured offline_env"
    by (simp add: api_key_configured_def offline_env_def)
  from fallback_restaurant [OF validate_restoran c i k miss_init]
  show ?thesis using i k by simp
qed


section \<open>The claims about the other endpoints\<close>

text \<open>
  C7. After any sequence of requests to a new process, GET /api/statistics/:okedCode answers
  501 for a code that is one letter from A to U or one to five digits, and 400 for any
  other code.
\<close>

theorem statistics_format_check:
  "status_code (fst (handle e (t, t', GetStatistics (Str code)) (run e requests init_state)))
     = (if oked_code_format code then 501 else 400)"
proof -
  have "cache (run e requests init_state) (ascii ''stats_'' @ code) = None"
    by (intro no_statistics_entry cache_inv_run cache_inv_init)
  then show ?thesis
    by (auto simp: statistics_handler_def cache_get_def oked_code_format_def)
qed

theorem statistics_format_check_witness:
  "status_code (fst (handle steady_env (5000000, 5000001, GetStatistics (Str (ascii ''A'')))
       (run steady_env morning_requests init_state))) = 501
   \<and> status_code (fst (handle steady_env (5000000, 5000001, GetStatistics (Str (ascii ''ZZ'')))
       (run steady_env morning_requests init_state))) = 400
   \<and> status_code (fst (handle steady_env (5000000, 5000001, GetStatistics (Str (ascii ''12345'')))
       (run steady_env morning_requests init_state))) = 501
   \<and> status_code (fst (handle steady_env (5000000, 5000001, GetStatistics (Str (ascii ''123456'')))
       (run steady_env morning_requests init_state))) = 400"
  using statistics_format_check [of steady_env 5000000 5000001 "ascii ''A''" morning_requests]
    statistics_format_check [of steady_env 5000000 5000001 "ascii ''ZZ''" morning_requests]
    statistics_format_check [of steady_env 5000000 5000001 "ascii ''12345''" morning_requests]
    statistics_format_check [of steady_env 5000000 5000001 "ascii ''123456''" morning_requests]
  by (simp add: oked_code_format_def ascii_def)

text \<open>
  C8. After any sequence of requests to a new process, GET /api/oked/sections answers 200
  with the same result, whose \<^verbatim>\<open>data\<close> is the fixed list of 8 section records.
\<close>

theorem sections_always_the_same:
  "fst (handle e (t, t', GetSections) (run e requests init_state))
     = Response 200 (Obj [(ascii ''data'', Arr sections), (ascii ''cached'', Bool False)])
   \<and> length sections = 8"
proof -
  have "cache (run e requests init_state) (ascii ''oked_sections'') = None
     \<or> (\<exists>ex. cache (run e requests init_state) (ascii ''oked_sections'') = Some (sections_result, ex))"
    by (intro sections_entry cache_inv_run cache_inv_init)
  then have "fst (sections_handler t t' (run e requests init_state)) = Response 200 sections_result"
    by (auto simp: sections_handler_def cache_get_def sections_result_def)
  then show ?thesis
    by (simp add: sections_result_def sections_def)
qed


theorem sections_always_the_same_witness:
  "fst (handle steady_env (5000000, 5000001, GetSections)
          (run steady_env morning_requests init_state))
     = Response 200 (Obj [(ascii ''data'', Arr sections), (ascii ''cached'', Bool False)])
   \<and> fst (handle steady_env (1000, 1001, GetSections) (run steady_env [] init_state))
     = Response 200 (Obj [(ascii ''data'', Arr sections), (ascii ''cached'', Bool False)])
   \<and> length sections = 8"
  using sections_always_the_same [of steady_env 5000000 5000001 morning_requests]
    sections_always_the_same [of steady_env 1000 1001 "[]"]
  by simp

end
